theory Spec2Isabelle
  imports Complex_Main "HOL-Library.Sublist" "HOL-Library.Word"
begin

section \<open>Python strings\<close>

text \<open>
  A Python \<open>str\<close> is a sequence of Unicode code points; a code point is modelled as a
  natural number and a string as the list of its code points. \<open>lit\<close> turns an ASCII
  literal of the source into that representation.
\<close>

type_synonym pystr = "nat list"

definition lit :: "string \<Rightarrow> pystr" where
  "lit s = map of_char s"

text \<open>
  The characters for which \<open>str.isspace\<close> holds, which are the ones \<open>str.strip()\<close>
  removes when it is called without an argument.
\<close>

definition is_space :: "nat \<Rightarrow> bool" where
  "is_space c \<longleftrightarrow>
     (9 \<le> c \<and> c \<le> 13) \<or> (28 \<le> c \<and> c \<le> 32) \<or> c = 133 \<or> c = 160 \<or> c = 5760
     \<or> (8192 \<le> c \<and> c \<le> 8202) \<or> c = 8232 \<or> c = 8233 \<or> c = 8239 \<or> c = 8287
     \<or> c = 12288"

definition strip :: "pystr \<Rightarrow> pystr" where
  "strip s = rev (dropWhile is_space (rev (dropWhile is_space s)))"

text \<open>
  \<open>sub in s\<close> on strings holds when \<open>sub\<close> occurs in \<open>s\<close> as a contiguous run, which
  is \<^term>\<open>sublist sub s\<close>.
\<close>

text \<open>
  \<open>s.split(sep)\<close> for a non-empty separator: the pieces between the occurrences of
  \<open>sep\<close>, found from the left without overlap. \<open>cur\<close> is the piece being read.
  The program calls it with the separator \<open>://\<close> only.
\<close>

fun split_from :: "pystr \<Rightarrow> pystr \<Rightarrow> pystr \<Rightarrow> pystr list" where
  "split_from sep cur [] = [cur]"
| "split_from sep cur (c # cs) =
     (if prefix sep (c # cs) then cur # split_from sep [] (drop (length sep - 1) cs)
      else split_from sep (cur @ [c]) cs)"

definition str_split :: "pystr \<Rightarrow> pystr \<Rightarrow> pystr list" where
  "str_split s sep = split_from sep [] s"

text \<open>\<open>str(n)\<close> for an integer: its decimal digits, with a minus sign when negative.\<close>

fun str_nat :: "nat \<Rightarrow> pystr" where
  "str_nat n = (if n < 10 then [48 + n] else str_nat (n div 10) @ [48 + n mod 10])"

declare str_nat.simps [simp del]

definition str_int :: "int \<Rightarrow> pystr" where
  "str_int i = (if i < 0 then 45 # str_nat (nat (- i)) else str_nat (nat i))"

text \<open>\<open>posixpath.join\<close> of two components.\<close>

definition path_join :: "pystr \<Rightarrow> pystr \<Rightarrow> pystr" where
  "path_join a b =
     (if b \<noteq> [] \<and> hd b = 47 then b
      else if a = [] \<or> last a = 47 then a @ b
      else a @ [47] @ b)"

section \<open>Folder names\<close>

text \<open>
  \<^verbatim>\<open>re.sub(r'[\\/*?:"<>|]', "", name).strip()\<close>: the character class holds the nine
  characters backslash (92), slash (47), star (42), question mark (63), colon (58),
  double quote (34), less-than (60), greater-than (62) and bar (124).
\<close>

definition illegal_chars :: "nat list" where
  "illegal_chars = [92, 47, 42, 63, 58, 34, 60, 62, 124]"

definition sanitize :: "pystr \<Rightarrow> pystr" where
  "sanitize name = strip (filter (\<lambda>c. c \<notin> set illegal_chars) name)"

section \<open>Values, exceptions and configuration\<close>

text \<open>
  The values a decoded JSON document is made of. \<open>PyDict\<close> lists the items of a
  dictionary whose keys are strings; a floating-point number is carried as the rational
  it denotes.
\<close>

datatype pyval =
    PyNone
  | PyBool bool
  | PyInt int
  | PyFloat rat
  | PyStr pystr
  | PyList "pyval list"
  | PyDict "(pystr \<times> pyval) list"

text \<open>
  The exceptions of class \<open>Exception\<close> that the program can meet. \<open>LibError\<close> is an
  exception raised inside a library (transport, JSON decoding, image codec, file system,
  media server), named by its text.
\<close>

datatype pyexc =
    AttributeError
  | TypeError
  | IndexError
  | KeyError pyval
  | HTTPError int
  | FileExistsError pystr
  | LibError pystr

text \<open>Truth value of an object, as \<open>if x:\<close> tests it.\<close>

fun truthy :: "pyval \<Rightarrow> bool" where
  "truthy PyNone = False"
| "truthy (PyBool b) = b"
| "truthy (PyInt i) = (i \<noteq> 0)"
| "truthy (PyFloat q) = (q \<noteq> 0)"
| "truthy (PyStr s) = (s \<noteq> [])"
| "truthy (PyList xs) = (xs \<noteq> [])"
| "truthy (PyDict kvs) = (kvs \<noteq> [])"

text \<open>\<open>d.get(key, default)\<close>: only a dictionary has the method.\<close>

fun dict_get :: "pyval \<Rightarrow> pystr \<Rightarrow> pyval \<Rightarrow> pyexc + pyval" where
  "dict_get (PyDict kvs) k dflt = Inr (case map_of kvs k of None \<Rightarrow> dflt | Some v \<Rightarrow> v)"
| "dict_get _ k dflt = Inl AttributeError"

text \<open>\<open>x[0]\<close>.\<close>

fun index0 :: "pyval \<Rightarrow> pyexc + pyval" where
  "index0 (PyList []) = Inl IndexError"
| "index0 (PyList (x # xs)) = Inr x"
| "index0 (PyStr []) = Inl IndexError"
| "index0 (PyStr (c # cs)) = Inr (PyStr [c])"
| "index0 (PyDict kvs) = Inl (KeyError (PyInt 0))"
| "index0 _ = Inl TypeError"

text \<open>\<open>x[key]\<close> for a string key.\<close>

fun subscript :: "pyval \<Rightarrow> pystr \<Rightarrow> pyexc + pyval" where
  "subscript (PyDict kvs) k =
     (case map_of kvs k of None \<Rightarrow> Inl (KeyError (PyStr k)) | Some v \<Rightarrow> Inr v)"
| "subscript _ k = Inl TypeError"

text \<open>The settings read from the environment when the module is loaded.\<close>

record config =
  FANART_API_KEY :: "pystr option"
  UPDATE_PLEX :: bool
  FORCE_REFRESH :: bool
  FUZZY_THRESHOLD :: int

definition BASE_OUTPUT_DIR :: pystr where
  "BASE_OUTPUT_DIR = lit ''/app/ArtistLogos''"

section \<open>The world outside the program\<close>

text \<open>
  What a library call answers is not decided by the program. Those answers are collected
  in an environment \<open>env\<close> that the model takes as a parameter; what the program does to
  the outside is recorded in a \<open>world\<close>: the statistics dictionary, the files under the
  output root and the sequence of calls made so far.
\<close>

type_synonym rgb = "8 word \<times> 8 word \<times> 8 word"
type_synonym rgba = "8 word \<times> 8 word \<times> 8 word \<times> 8 word"

text \<open>A raster image; \<open>pixel\<close> is read inside \<open>0 \<le> x < width\<close>, \<open>0 \<le> y < height\<close> only.\<close>

record 'p image =
  width :: int
  height :: int
  pixel :: "int \<Rightarrow> int \<Rightarrow> 'p"

text \<open>
  The answer to \<open>requests.get\<close>: its status, the outcome of \<open>res.json()\<close> and the raw
  body.
\<close>

record response =
  status_code :: int
  json :: "pyexc + pyval"
  content :: "8 word list"

text \<open>
  An artist of the library: its display name and the outcome of reading its list of
  cross-reference identifiers (the client library may have to fetch them, which can fail).
\<close>

record artist =
  title :: pystr
  guids :: "pyexc + pystr list"

record env =
  http_get :: "pyval \<Rightarrow> pyexc + response"
  token_sort_ratio :: "pystr \<Rightarrow> pyval \<Rightarrow> pyexc + rat"
  image_open :: "8 word list \<Rightarrow> pyexc + rgba image"
  blend :: "rgb \<Rightarrow> rgba \<Rightarrow> rgb"
  mkdir_error :: "pystr \<Rightarrow> pyexc option"
  save_error :: "pystr \<Rightarrow> (pyexc \<times> bool) option"
  jpeg_pixels :: "rgb image \<Rightarrow> int \<Rightarrow> int \<Rightarrow> rgb"
  upload_error :: "artist \<Rightarrow> pystr \<Rightarrow> pyexc option"
  str_exc :: "pyexc \<Rightarrow> pystr"
  str_float :: "rat \<Rightarrow> pystr"
  str_val :: "pyval \<Rightarrow> pystr"

text \<open>
  \<open>JpegFile im\<close> is a JPEG file, and \<open>im\<close> the image one reads back from it. The
  encoding of \<open>canvas.save(path, "JPEG", quality=95)\<close> is lossy: the file keeps the
  width and height of the canvas, and its pixels are the ones the codec gives back,
  \<open>jpeg_pixels env canvas\<close>, which need not be the pixels of the canvas.
\<close>

datatype fsnode = Directory | JpegFile "rgb image" | OtherFile

definition jpeg_file :: "env \<Rightarrow> rgb image \<Rightarrow> rgb image" where
  "jpeg_file env canvas = canvas\<lparr>pixel := jpeg_pixels env canvas\<rparr>"

datatype level = INFO | WARNING | ERROR

datatype event =
    Sleep
  | HttpGet pyval
  | MakeDirs pystr
  | SaveJpeg pystr
  | UploadPoster pystr pystr
  | Log level pystr

record run_stats =
  total_scanned :: int
  already_exists_skipped :: int
  new_downloads :: int
  plex_posters_updated :: int
  not_found_list :: "pystr list"
  errors :: int

record world =
  stats :: run_stats
  fs :: "pystr \<rightharpoonup> fsnode"
  trace :: "event list"

definition emit :: "event \<Rightarrow> world \<Rightarrow> world" where
  "emit e w = w\<lparr>trace := trace w @ [e]\<rparr>"

text \<open>
  Running a computation that may raise: \<open>Inl\<close> is the exception, and the rest of the
  block is skipped.
\<close>

definition and_then :: "'e + 'a \<Rightarrow> ('a \<Rightarrow> 'e + 'b) \<Rightarrow> 'e + 'b" where
  "and_then m f = (case m of Inl e \<Rightarrow> Inl e | Inr x \<Rightarrow> f x)"

text \<open>\<open>{v}\<close> inside an f-string.\<close>

fun format_val :: "(pyval \<Rightarrow> pystr) \<Rightarrow> pyval \<Rightarrow> pystr" where
  "format_val f (PyStr s) = s"
| "format_val f PyNone = lit ''None''"
| "format_val f (PyBool b) = (if b then lit ''True'' else lit ''False'')"
| "format_val f (PyInt i) = str_int i"
| "format_val f v = f v"

section \<open>The art resolver\<close>

definition fanart_url :: "config \<Rightarrow> pystr \<Rightarrow> pystr" where
  "fanart_url cfg mbid =
     lit ''https://webservice.fanart.tv/v3/music/'' @ mbid @ lit ''?api_key=''
     @ (case FANART_API_KEY cfg of None \<Rightarrow> lit ''None'' | Some k \<Rightarrow> k)"

text \<open>The asset choice of \<open>get_logo\<close>, lines 70 to 78.\<close>

definition first_url :: "pyval \<Rightarrow> pyexc + pyval" where
  "first_url assets = and_then (index0 assets) (\<lambda>a. subscript a (lit ''url''))"

definition select_asset :: "env \<Rightarrow> pyval \<Rightarrow> rat \<Rightarrow> pyexc + pyval \<times> pystr" where
  "select_asset env data score =
     and_then (dict_get data (lit ''hdmusiclogo'') (PyList [])) (\<lambda>hd.
     and_then (dict_get data (lit ''musiclogo'') (PyList [])) (\<lambda>sd.
       if truthy hd then
         and_then (first_url hd) (\<lambda>u.
           Inr (u, lit ''Success (HD) - Match: '' @ str_float env score @ lit ''%''))
       else if truthy sd then
         and_then (first_url sd) (\<lambda>u.
           Inr (u, lit ''Success (SD Fallback) - Match: '' @ str_float env score @ lit ''%''))
       else
         Inr (PyNone,
           lit ''Artist exists on Fanart, but has no Logo assets (only backgrounds/art)'')))"

text \<open>The body of the \<open>try\<close> block of \<open>get_logo\<close>.\<close>

definition get_logo_try :: "env \<Rightarrow> config \<Rightarrow> pystr \<Rightarrow> pystr \<Rightarrow> pyexc + pyval \<times> pystr" where
  "get_logo_try env cfg url plex_name =
     and_then (http_get env (PyStr url)) (\<lambda>res.
       if status_code res = 404 then
         Inr (PyNone, lit ''Artist MBID not found in Fanart.tv database'')
       else if status_code res = 200 then
         and_then (json res) (\<lambda>data.
         and_then (dict_get data (lit ''name'') (PyStr (lit ''Unknown''))) (\<lambda>fanart_name.
         and_then (token_sort_ratio env plex_name fanart_name) (\<lambda>score.
           if score < of_int (FUZZY_THRESHOLD cfg) then
             Inr (PyNone,
               lit ''Fuzzy Match Failed (Score: '' @ str_float env score
               @ lit '', Fanart Name: '' @ [39] @ format_val (str_val env) fanart_name
               @ [39] @ lit '')'')
           else select_asset env data score)))
       else
         Inr (PyNone, lit ''API Error (Status: '' @ str_int (status_code res) @ lit '')''))"

text \<open>
  \<open>get_logo\<close>: the pause, the request, and the handler that turns every exception of the
  block into a diagnostic.
\<close>

definition get_logo :: "env \<Rightarrow> config \<Rightarrow> pystr \<Rightarrow> pystr \<Rightarrow> world \<Rightarrow> (pyval \<times> pystr) \<times> world" where
  "get_logo env cfg mbid plex_name w =
     (let url = fanart_url cfg mbid;
          w' = emit (HttpGet (PyStr url)) (emit Sleep w)
      in case get_logo_try env cfg url plex_name of
           Inr r \<Rightarrow> (r, w')
         | Inl e \<Rightarrow> ((PyNone, lit ''Connection Error: '' @ str_exc env e), w'))"

section \<open>The image normalizer\<close>

definition new_image :: "int \<times> int \<Rightarrow> 'p \<Rightarrow> 'p image" where
  "new_image dims colour = \<lparr>width = fst dims, height = snd dims, pixel = (\<lambda>x y. colour)\<rparr>"

text \<open>
  \<open>canvas.paste(im, box, mask)\<close> with the image as its own mask: inside the box, each
  pixel of the canvas is mixed with the pixel of \<open>im\<close> by the library; outside, the
  canvas is left as it is.
\<close>

definition paste :: "(rgb \<Rightarrow> rgba \<Rightarrow> rgb) \<Rightarrow> rgb image \<Rightarrow> rgba image \<Rightarrow> int \<times> int \<Rightarrow> rgb image" where
  "paste mix canvas im box =
     canvas\<lparr>pixel := (\<lambda>x y.
        if fst box \<le> x \<and> x < fst box + width im \<and> snd box \<le> y \<and> y < snd box + height im
        then mix (pixel canvas x y) (pixel im (x - fst box) (y - snd box))
        else pixel canvas x y)\<rparr>"

text \<open>Lines 92 to 97 of \<open>process_image\<close>.\<close>

definition square_canvas :: "(rgb \<Rightarrow> rgba \<Rightarrow> rgb) \<Rightarrow> rgba image \<Rightarrow> rgb image" where
  "square_canvas mix img =
     (let side = max (width img) (height img);
          canvas = new_image (side, side) (0, 0, 0);
          offset = ((side - width img) div 2, (side - height img) div 2)
      in paste mix canvas img offset)"

text \<open>The body of the \<open>try\<close> block of \<open>process_image\<close>.\<close>

definition process_image_try :: "env \<Rightarrow> pyval \<Rightarrow> pystr \<Rightarrow> world \<Rightarrow> pyexc \<times> world + world" where
  "process_image_try env url save_path w =
     (let w1 = emit (HttpGet url) w in
      case http_get env url of
        Inl e \<Rightarrow> Inl (e, w1)
      | Inr res \<Rightarrow>
          if 400 \<le> status_code res \<and> status_code res < 600 then
            Inl (HTTPError (status_code res), w1)
          else
            (case image_open env (content res) of
               Inl e \<Rightarrow> Inl (e, w1)
             | Inr img \<Rightarrow>
                 (let canvas = square_canvas (blend env) img;
                      w2 = emit (SaveJpeg save_path) w1
                  in case save_error env save_path of
                       Some (e, partial) \<Rightarrow>
                         Inl (e, if partial then w2\<lparr>fs := (fs w2)(save_path \<mapsto> OtherFile)\<rparr>
                                 else w2)
                     | None \<Rightarrow>
                         Inr (w2\<lparr>fs := (fs w2)(save_path \<mapsto>
                                JpegFile (jpeg_file env canvas))\<rparr>))))"

definition process_image :: "env \<Rightarrow> pyval \<Rightarrow> pystr \<Rightarrow> world \<Rightarrow> bool \<times> world" where
  "process_image env url save_path w =
     (case process_image_try env url save_path w of
        Inr w' \<Rightarrow> (True, w')
      | Inl (e, w') \<Rightarrow>
          (False, emit (Log ERROR (lit ''  Image Processing Error: '' @ str_exc env e)) w'))"

section \<open>The run over the artists\<close>

text \<open>
  Line 129: the first identifier that has \<open>mbid\<close> in it, cut after its last \<open>://\<close>;
  \<open>None\<close> when there is no such identifier.
\<close>

definition extract_mbid :: "pystr list \<Rightarrow> pystr option" where
  "extract_mbid gs =
     map_option (\<lambda>g. last (str_split g (lit ''://''))) (find (sublist (lit ''mbid'')) gs)"

definition image_dir :: "pystr \<Rightarrow> pystr" where
  "image_dir name = path_join BASE_OUTPUT_DIR (sanitize name)"

definition image_path :: "pystr \<Rightarrow> pystr" where
  "image_path name = path_join (image_dir name) (lit ''artist.jpg'')"

text \<open>\<open>os.makedirs(d, exist_ok=True)\<close>, for a directory whose parent exists.\<close>

definition makedirs :: "env \<Rightarrow> pystr \<Rightarrow> world \<Rightarrow> pyexc \<times> world + world" where
  "makedirs env d w =
     (let w1 = emit (MakeDirs d) w in
      case fs w d of
        Some Directory \<Rightarrow> Inr w1
      | Some _ \<Rightarrow> Inl (FileExistsError d, w1)
      | None \<Rightarrow>
          (case mkdir_error env d of
             Some e \<Rightarrow> Inl (e, w1)
           | None \<Rightarrow> Inr (w1\<lparr>fs := (fs w1)(d \<mapsto> Directory)\<rparr>)))"

definition add_not_found :: "pystr \<Rightarrow> pystr \<Rightarrow> world \<Rightarrow> world" where
  "add_not_found name reason w =
     w\<lparr>stats := (stats w)\<lparr>not_found_list :=
        not_found_list (stats w) @ [name @ lit '' | '' @ reason]\<rparr>\<rparr>"

text \<open>\<open>artist.uploadPoster(filepath=img_path)\<close> inside its own \<open>try\<close>, lines 145 to 150.\<close>

definition push_back :: "env \<Rightarrow> artist \<Rightarrow> pystr \<Rightarrow> world \<Rightarrow> world" where
  "push_back env a img_path w =
     (let w1 = emit (UploadPoster (title a) img_path) w in
      case upload_error env a img_path of
        None \<Rightarrow> w1\<lparr>stats := (stats w1)\<lparr>plex_posters_updated :=
                  plex_posters_updated (stats w1) + 1\<rparr>\<rparr>
      | Some pe \<Rightarrow>
          emit (Log ERROR (lit ''  Plex Upload Failed for '' @ title a @ lit '': ''
                           @ str_exc env pe)) w1)"

text \<open>Lines 131 to 133: the artist has no usable identifier.\<close>

definition no_external_id :: "artist \<Rightarrow> world \<Rightarrow> world" where
  "no_external_id a w =
     (let reason = lit ''Plex has no MusicBrainz ID for this artist'' in
      emit (Log INFO (lit ''Skipping: '' @ title a @ lit '' -> '' @ reason))
        (add_not_found (title a) reason w))"

text \<open>
  The body of the \<open>try\<close> block of the loop, lines 119 to 153. \<open>Inl (e, w')\<close>: the
  exception \<open>e\<close> left the block, and \<open>w'\<close> is the world at that moment.
\<close>

definition artist_body :: "env \<Rightarrow> config \<Rightarrow> artist \<Rightarrow> world \<Rightarrow> pyexc \<times> world + world" where
  "artist_body env cfg a w =
     (let artist_dir = image_dir (title a);
          img_path = image_path (title a)
      in
      if img_path \<in> dom (fs w) \<and> \<not> FORCE_REFRESH cfg then
        Inr (w\<lparr>stats := (stats w)\<lparr>already_exists_skipped :=
                already_exists_skipped (stats w) + 1\<rparr>\<rparr>)
      else
        (case guids a of
           Inl e \<Rightarrow> Inl (e, w)
         | Inr gs \<Rightarrow>
             (case extract_mbid gs of
                None \<Rightarrow> Inr (no_external_id a w)
              | Some mbid \<Rightarrow>
                  if mbid = [] then Inr (no_external_id a w)
                  else
                    (let ((logo_url, result_msg), w1) = get_logo env cfg mbid (title a) w in
                     if truthy logo_url then
                       (case makedirs env artist_dir w1 of
                          Inl x \<Rightarrow> Inl x
                        | Inr w2 \<Rightarrow>
                            (let (ok, w3) = process_image env logo_url img_path w2 in
                             if ok then
                               (let w4 = emit (Log INFO ([9989] @ lit '' Saved: '' @ title a
                                           @ lit '' ('' @ result_msg @ lit '')'')) w3;
                                    w5 = w4\<lparr>stats := (stats w4)\<lparr>new_downloads :=
                                           new_downloads (stats w4) + 1\<rparr>\<rparr>
                                in if UPDATE_PLEX cfg then Inr (push_back env a img_path w5)
                                   else Inr w5)
                             else Inr w3))
                     else
                       Inr (emit (Log WARNING (lit ''Missing: '' @ title a @ lit '' -> ''
                                    @ result_msg))
                              (add_not_found (title a) result_msg w1))))))"

text \<open>One turn of the loop: the body and the handler of lines 155 to 157.\<close>

definition process_artist :: "env \<Rightarrow> config \<Rightarrow> artist \<Rightarrow> world \<Rightarrow> world" where
  "process_artist env cfg a w =
     (case artist_body env cfg a w of
        Inr w' \<Rightarrow> w'
      | Inl (e, w') \<Rightarrow>
          emit (Log ERROR (lit ''Critical error on '' @ title a @ lit '': '' @ str_exc env e))
            (w'\<lparr>stats := (stats w')\<lparr>errors := errors (stats w') + 1\<rparr>\<rparr>))"

fun main_loop :: "env \<Rightarrow> config \<Rightarrow> artist list \<Rightarrow> world \<Rightarrow> world" where
  "main_loop env cfg [] w = w"
| "main_loop env cfg (a # artists) w = main_loop env cfg artists (process_artist env cfg a w)"

section \<open>The identifier resolver as the specification words it\<close>

text \<open>
  The specification selects an identifier by its scheme component, the text in front of
  the first \<open>://\<close>. This second resolver follows those words, to be compared with
  \<open>extract_mbid\<close>, which follows line 129.
\<close>

definition scheme_component :: "pystr \<Rightarrow> pystr" where
  "scheme_component g = hd (str_split g (lit ''://''))"

definition spec_identifier_resolver :: "pystr list \<Rightarrow> pystr option" where
  "spec_identifier_resolver gs =
     map_option (\<lambda>g. last (str_split g (lit ''://'')))
       (find (\<lambda>g. sublist (lit ''mbid'') (scheme_component g)) gs)"

section \<open>A sample library\<close>

text \<open>
  Concrete values on which the properties below are tried: the artist \<open>Foo\<close> of the
  specification's end-to-end scenario with the identifier \<open>mbid://1234\<close>, a provider
  that knows it under the same name with one high-definition and one standard-definition
  logo, and an image of 100 by 200 pixels.
\<close>

definition sample_cfg :: config where
  "sample_cfg = \<lparr>FANART_API_KEY = Some (lit ''key''), UPDATE_PLEX = True,
                  FORCE_REFRESH = False, FUZZY_THRESHOLD = 90\<rparr>"

definition foo :: artist where
  "foo = \<lparr>title = lit ''Foo'', guids = Inr [lit ''plex://artist/5d07'', lit ''mbid://1234'']\<rparr>"

definition sample_data :: "pyval list \<Rightarrow> pyval list \<Rightarrow> pyval" where
  "sample_data hds sds =
     PyDict [(lit ''name'', PyStr (lit ''Foo'')), (lit ''hdmusiclogo'', PyList hds),
             (lit ''musiclogo'', PyList sds)]"

definition asset :: "string \<Rightarrow> pyval" where
  "asset u = PyDict [(lit ''id'', PyStr (lit ''1'')), (lit ''url'', PyStr (lit u))]"

definition sample_reply :: "int \<Rightarrow> pyval \<Rightarrow> pyexc + response" where
  "sample_reply st data = Inr \<lparr>status_code = st, json = Inr data, content = []\<rparr>"

definition sample_image :: "rgba image" where
  "sample_image = \<lparr>width = 100, height = 200, pixel = (\<lambda>x y. (255, 255, 255, 255))\<rparr>"

text \<open>
  A stand-in for the lossy codec: a black pixel whose right or left neighbour is not black
  comes back as a dark grey, as the ringing of a JPEG does next to an edge; every other
  pixel comes back as it was.
\<close>

definition sample_codec :: "rgb image \<Rightarrow> int \<Rightarrow> int \<Rightarrow> rgb" where
  "sample_codec im x y =
     (if pixel im x y = (0, 0, 0)
         \<and> (pixel im (x + 1) y \<noteq> (0, 0, 0) \<or> pixel im (x - 1) y \<noteq> (0, 0, 0))
      then (2, 2, 2) else pixel im x y)"

text \<open>
  The provider answers \<open>fanart\<close> to every request but the one for \<open>http://a/hd.png\<close>,
  which is answered by an image body.
\<close>

definition sample_env :: "(pyexc + response) \<Rightarrow> env" where
  "sample_env fanart =
     \<lparr>http_get = (\<lambda>u. if u = PyStr (lit ''http://a/hd.png'')
                       then Inr \<lparr>status_code = 200, json = Inl (LibError (lit ''not JSON'')),
                                 content = [137, 80, 78, 71]\<rparr>
                       else fanart),
      token_sort_ratio = (\<lambda>a b. if b = PyStr a then Inr 100 else Inr 40),
      image_open = (\<lambda>bytes. Inr sample_image),
      blend = (\<lambda>dst (r, g, b, a). if a = 0 then dst else (r, g, b)),
      mkdir_error = (\<lambda>d. None),
      save_error = (\<lambda>p. None),
      jpeg_pixels = sample_codec,
      upload_error = (\<lambda>a p. None),
      str_exc = (\<lambda>e. case e of LibError t \<Rightarrow> t | _ \<Rightarrow> lit ''error''),
      str_float = (\<lambda>q. str_int (floor q)),
      str_val = (\<lambda>v. lit ''?'')\<rparr>"

definition world0 :: world where
  "world0 =
     \<lparr>stats = \<lparr>total_scanned = 0, already_exists_skipped = 0, new_downloads = 0,
                plex_posters_updated = 0, not_found_list = [], errors = 0\<rparr>,
      fs = [BASE_OUTPUT_DIR \<mapsto> Directory],
      trace = []\<rparr>"

section \<open>Properties of the string functions\<close>

lemma strip_decomp:
  "\<exists>pre post. s = pre @ strip s @ post \<and> (\<forall>c\<in>set pre. is_space c) \<and> (\<forall>c\<in>set post. is_space c)"
proof -
  let ?rest = "dropWhile is_space s"
  let ?pre = "takeWhile is_space s"
  let ?post = "rev (takeWhile is_space (rev ?rest))"
  have "rev ?rest = takeWhile is_space (rev ?rest) @ dropWhile is_space (rev ?rest)"
    by simp
  then have "?rest = strip s @ ?post"
    unfolding strip_def by (metis rev_append rev_rev_ident)
  then have "s = ?pre @ strip s @ ?post"
    by (metis takeWhile_dropWhile_id)
  moreover have "\<forall>c\<in>set ?pre. is_space c"
    by (auto dest: set_takeWhileD)
  moreover have "\<forall>c\<in>set ?post. is_space c"
    by (auto dest: set_takeWhileD)
  ultimately show ?thesis by blast
qed

lemma strip_ends:
  assumes "strip s \<noteq> []"
  shows "\<not> is_space (hd (strip s))" and "\<not> is_space (last (strip s))"
proof -
  let ?rest = "dropWhile is_space s"
  let ?tail = "dropWhile is_space (rev ?rest)"
  have tl_ne: "?tail \<noteq> []" using assms by (simp add: strip_def)
  then have "\<not> is_space (hd ?tail)" by (rule hd_dropWhile)
  then show "\<not> is_space (last (strip s))"
    using tl_ne by (simp add: strip_def last_rev)
  have rest: "?rest \<noteq> []" using tl_ne by (metis dropWhile.simps(1) rev.simps(1))
  have "rev ?rest = takeWhile is_space (rev ?rest) @ ?tail" by simp
  then have "?rest = strip s @ rev (takeWhile is_space (rev ?rest))"
    unfolding strip_def by (metis rev_append rev_rev_ident)
  then have "hd ?rest = hd (strip s)" using assms by (metis hd_append2)
  moreover have "\<not> is_space (hd ?rest)" using rest by (rule hd_dropWhile)
  ultimately show "\<not> is_space (hd (strip s))" by simp
qed

lemma split_from_not_Nil: "split_from sep cur s \<noteq> []"
  by (induction sep cur s rule: split_from.induct) auto

lemma split_from_no_sep:
  "\<not> sublist sep s \<Longrightarrow> split_from sep cur s = [cur @ s]"
  by (induction s arbitrary: cur) (auto simp: sublist_Cons_right)

lemma last_split_from:
  assumes "\<not> sublist [58, 47, 47] r"
  shows "last (split_from [58, 47, 47] cur (p @ [58, 47, 47] @ r)) = r"
proof (induction p arbitrary: cur rule: length_induct)
  case (1 p)
  show ?case
  proof (cases p)
    case Nil
    then show ?thesis using assms by (simp add: split_from_no_sep)
  next
    case (Cons a p')
    show ?thesis
    proof (cases "prefix [58, 47, 47] (p @ [58, 47, 47] @ r)")
      case False
      define s' where "s' = p' @ [58, 47, 47] @ r"
      have eq: "p @ [58, 47, 47] @ r = a # s'" using Cons by (simp add: s'_def)
      have np: "\<not> prefix [58, 47, 47] (a # s')" using False unfolding eq .
      have "split_from [58, 47, 47] cur (a # s') = split_from [58, 47, 47] (cur @ [a]) s'"
        by (subst split_from.simps(2)) (simp only: np if_False)
      moreover have "length p' < length p" using Cons by simp
      ultimately show ?thesis using 1 unfolding eq s'_def by metis
    next
      case True
      then obtain p'' where p'': "p' = 47 # 47 # p''" and a: "a = 58"
        using Cons by (cases p'; cases "tl p'") (auto)
      have "length p'' < length p" using Cons p'' by simp
      then have "last (split_from [58, 47, 47] [] (p'' @ [58, 47, 47] @ r)) = r"
        using 1 by blast
      then show ?thesis using Cons p'' a by (simp add: split_from_not_Nil)
    qed
  qed
qed

section \<open>Folder names (properties)\<close>

text \<open>
  C7. \<open>sanitize\<close> deletes the nine characters of the class wherever they stand and
  nothing else, then trims: what is left of the name after the deletion is the result
  with a run of whitespace before it and a run of whitespace after it, and the result
  neither starts nor ends with whitespace. The name \<open>A/B:C?\<close> becomes \<open>ABC\<close>.
\<close>

theorem sanitize_removes_and_trims:
  "(\<exists>pre post.
      filter (\<lambda>c. c \<notin> {92, 47, 42, 63, 58, 34, 60, 62, 124}) name = pre @ sanitize name @ post
      \<and> (\<forall>c\<in>set pre. is_space c) \<and> (\<forall>c\<in>set post. is_space c))
   \<and> (sanitize name \<noteq> [] \<longrightarrow>
        \<not> is_space (hd (sanitize name)) \<and> \<not> is_space (last (sanitize name)))
   \<and> sanitize (lit ''A/B:C?'') = lit ''ABC''"
proof -
  have set_eq: "set illegal_chars = {92, 47, 42, 63, 58, 34, 60, 62, 124}"
    by (simp add: illegal_chars_def)
  have "sanitize (lit ''A/B:C?'') = lit ''ABC''"
    by (simp add: sanitize_def lit_def strip_def illegal_chars_def is_space_def)
  then show ?thesis
    using strip_decomp [of "filter (\<lambda>c. c \<notin> set illegal_chars) name"]
      strip_ends [of "filter (\<lambda>c. c \<notin> set illegal_chars) name"]
    unfolding sanitize_def set_eq by blast
qed

theorem sanitize_removes_and_trims_witness:
  "sanitize (lit '' AC/DC '') \<noteq> []
   \<and> \<not> is_space (hd (sanitize (lit '' AC/DC '')))
   \<and> \<not> is_space (last (sanitize (lit '' AC/DC '')))"
proof -
  have "sanitize (lit '' AC/DC '') \<noteq> []"
    by (simp add: sanitize_def lit_def strip_def illegal_chars_def is_space_def)
  with sanitize_removes_and_trims [of "lit '' AC/DC ''"] show ?thesis
    by blast
qed

text \<open>The equations that evaluate the model on the sample library.\<close>

lemmas sample_defs =
  sample_env_def sample_cfg_def foo_def sample_data_def asset_def sample_reply_def
  sample_image_def world0_def lit_def

lemmas model_defs =
  get_logo_def get_logo_try_def select_asset_def first_url_def and_then_def fanart_url_def
  emit_def makedirs_def process_image_def process_image_try_def image_path_def image_dir_def
  path_join_def BASE_OUTPUT_DIR_def sanitize_def strip_def illegal_chars_def is_space_def
  extract_mbid_def str_split_def sublist_code(3) str_int_def str_nat.simps Let_def

section \<open>The identifier resolver (properties)\<close>

lemma lit_sep: "lit ''://'' = [58, 47, 47]"
  by (simp add: lit_def)

lemma find_first:
  "\<forall>h\<in>set pre. \<not> P h \<Longrightarrow> P g \<Longrightarrow> find P (pre @ g # post) = Some g"
  by (induction pre) auto

lemma find_none: "\<forall>h\<in>set gs. \<not> P h \<Longrightarrow> find P gs = None"
  by (simp add: find_None_iff)

lemma artist_body_no_mbid:
  assumes "\<not> (image_path (title a) \<in> dom (fs w) \<and> \<not> FORCE_REFRESH cfg)"
    and "guids a = Inr gs" and "extract_mbid gs = None \<or> extract_mbid gs = Some []"
  shows "artist_body env cfg a w = Inr (no_external_id a w)"
  using assms by (auto simp: artist_body_def Let_def)

text \<open>
  C3, as stated, fails: the program looks for \<open>mbid\<close> in the whole identifier, not in
  its scheme component. Of the two identifiers \<open>plex://artist/mbid-1\<close> and
  \<open>mbid://abc\<close> it takes the first, whose scheme is \<open>plex\<close>, where the resolver of the
  specification takes the second.
\<close>

theorem extract_mbid_counterexample:
  "extract_mbid [lit ''plex://artist/mbid-1'', lit ''mbid://abc''] = Some (lit ''artist/mbid-1'')
   \<and> spec_identifier_resolver [lit ''plex://artist/mbid-1'', lit ''mbid://abc'']
       = Some (lit ''abc'')
   \<and> extract_mbid [lit ''plex://artist/mbid-1'', lit ''mbid://abc'']
       \<noteq> spec_identifier_resolver [lit ''plex://artist/mbid-1'', lit ''mbid://abc'']"
  by (simp add: extract_mbid_def spec_identifier_resolver_def scheme_component_def
      str_split_def lit_def sublist_code(3))

text \<open>
  C3, amended. The resolver returns the first identifier that contains \<open>mbid\<close> anywhere
  in its text, cut after its last \<open>://\<close> (the whole identifier when it has no
  \<open>://\<close>). When no identifier contains \<open>mbid\<close> it returns nothing; the artist is then
  appended to the not-found list, no counter changes, and the only call made is the log
  line, so nothing is requested from the art provider.
\<close>

theorem extract_mbid_first_containing:
  "((\<forall>h\<in>set pre. \<not> sublist (lit ''mbid'') h) \<and> sublist (lit ''mbid'') g \<longrightarrow>
      (\<not> sublist (lit ''://'') g \<longrightarrow> extract_mbid (pre @ g # post) = Some g)
      \<and> (\<forall>p r. g = p @ lit ''://'' @ r \<and> \<not> sublist (lit ''://'') r \<longrightarrow>
            extract_mbid (pre @ g # post) = Some r))
   \<and> ((\<forall>h\<in>set gs. \<not> sublist (lit ''mbid'') h) \<longrightarrow> extract_mbid gs = None)
   \<and> (\<not> (image_path (title a) \<in> dom (fs w) \<and> \<not> FORCE_REFRESH cfg)
       \<and> guids a = Inr gs \<and> extract_mbid gs = None \<longrightarrow>
         process_artist env cfg a w =
           w\<lparr>stats := (stats w)\<lparr>not_found_list := not_found_list (stats w)
                 @ [title a @ lit '' | Plex has no MusicBrainz ID for this artist'']\<rparr>,
             trace := trace w
                 @ [Log INFO (lit ''Skipping: '' @ title a
                      @ lit '' -> Plex has no MusicBrainz ID for this artist'')]\<rparr>)"
proof (intro conjI impI allI)
  assume h: "(\<forall>h\<in>set pre. \<not> sublist (lit ''mbid'') h) \<and> sublist (lit ''mbid'') g"
  then have f: "find (sublist (lit ''mbid'')) (pre @ g # post) = Some g"
    by (simp add: find_first)
  {
    assume "\<not> sublist (lit ''://'') g"
    then show "extract_mbid (pre @ g # post) = Some g"
      using f by (simp add: extract_mbid_def str_split_def split_from_no_sep)
  }
  {
    fix p r
    assume "g = p @ lit ''://'' @ r \<and> \<not> sublist (lit ''://'') r"
    then show "extract_mbid (pre @ g # post) = Some r"
      using f last_split_from [of r "[]" p]
      by (simp add: extract_mbid_def str_split_def lit_sep)
  }
next
  assume "\<forall>h\<in>set gs. \<not> sublist (lit ''mbid'') h"
  then show "extract_mbid gs = None"
    by (simp add: extract_mbid_def find_none)
next
  assume "\<not> (image_path (title a) \<in> dom (fs w) \<and> \<not> FORCE_REFRESH cfg)
       \<and> guids a = Inr gs \<and> extract_mbid gs = None"
  then have "artist_body env cfg a w = Inr (no_external_id a w)"
    using artist_body_no_mbid by blast
  then show "process_artist env cfg a w =
           w\<lparr>stats := (stats w)\<lparr>not_found_list := not_found_list (stats w)
                 @ [title a @ lit '' | Plex has no MusicBrainz ID for this artist'']\<rparr>,
             trace := trace w
                 @ [Log INFO (lit ''Skipping: '' @ title a
                      @ lit '' -> Plex has no MusicBrainz ID for this artist'')]\<rparr>"
    by (simp add: process_artist_def no_external_id_def add_not_found_def emit_def Let_def
        lit_def)
qed

theorem extract_mbid_first_containing_witness:
  "extract_mbid [lit ''plex://artist/5d07'', lit ''mbid://1234''] = Some (lit ''1234'')
   \<and> extract_mbid [lit ''plex://artist/5d07''] = None
   \<and> trace (process_artist (sample_env (Inl (LibError []))) sample_cfg
        (foo\<lparr>guids := Inr [lit ''plex://artist/5d07'']\<rparr>) world0)
      = [Log INFO (lit ''Skipping: Foo -> Plex has no MusicBrainz ID for this artist'')]"
proof -
  have a: "\<forall>h\<in>set [lit ''plex://artist/5d07'']. \<not> sublist (lit ''mbid'') h"
    by (simp add: lit_def sublist_code(3))
  have b: "sublist (lit ''mbid'') (lit ''mbid://1234'')"
    by (simp add: lit_def sublist_code(3))
  have c: "lit ''mbid://1234'' = lit ''mbid'' @ lit ''://'' @ lit ''1234''
           \<and> \<not> sublist (lit ''://'') (lit ''1234'')"
    by (simp add: lit_def sublist_code(3))
  have d: "\<not> (image_path (title (foo\<lparr>guids := Inr [lit ''plex://artist/5d07'']\<rparr>)) \<in> dom (fs world0)
            \<and> \<not> FORCE_REFRESH sample_cfg)"
    by (simp add: foo_def world0_def image_path_def image_dir_def path_join_def
        BASE_OUTPUT_DIR_def sanitize_def strip_def illegal_chars_def is_space_def lit_def)
  note inst = extract_mbid_first_containing
    [of "[lit ''plex://artist/5d07'']" "lit ''mbid://1234''" "[]" "[lit ''plex://artist/5d07'']"
        "foo\<lparr>guids := Inr [lit ''plex://artist/5d07'']\<rparr>" world0 sample_cfg
        "sample_env (Inl (LibError []))"]
  have e: "extract_mbid [lit ''plex://artist/5d07''] = None"
    using inst a by blast
  have "extract_mbid ([lit ''plex://artist/5d07''] @ lit ''mbid://1234'' # []) = Some (lit ''1234'')"
    using inst a b c by blast
  moreover have "process_artist (sample_env (Inl (LibError []))) sample_cfg
        (foo\<lparr>guids := Inr [lit ''plex://artist/5d07'']\<rparr>) world0 = 
        world0\<lparr>stats := (stats world0)\<lparr>not_found_list := not_found_list (stats world0)
                 @ [title (foo\<lparr>guids := Inr [lit ''plex://artist/5d07'']\<rparr>) @ lit '' | Plex has no MusicBrainz ID for this artist'']\<rparr>,
             trace := trace world0
                 @ [Log INFO (lit ''Skipping: '' @ title (foo\<lparr>guids := Inr [lit ''plex://artist/5d07'']\<rparr>)
                      @ lit '' -> Plex has no MusicBrainz ID for this artist'')]\<rparr>"
    using inst d e by (simp add: foo_def)
  ultimately show ?thesis using e by (simp add: foo_def world0_def lit_def)
qed

section \<open>The run over the artists (properties)\<close>

subsection \<open>What each step leaves unchanged, and the branches of the loop body\<close>

lemma get_logo_world:
  "snd (get_logo env cfg mbid name w) =
     w\<lparr>trace := trace w @ [Sleep, HttpGet (PyStr (fanart_url cfg mbid))]\<rparr>"
  by (simp add: get_logo_def emit_def Let_def split: sum.split)

lemma makedirs_Inr:
  "makedirs env d w = Inr w' \<Longrightarrow>
     stats w' = stats w \<and> trace w' = trace w @ [MakeDirs d]
     \<and> (fs w' = fs w \<or> fs w' = (fs w)(d \<mapsto> Directory))"
  by (auto simp: makedirs_def emit_def Let_def split: option.splits fsnode.splits)

lemma makedirs_Inl:
  "makedirs env d w = Inl (e, w') \<Longrightarrow> w' = w\<lparr>trace := trace w @ [MakeDirs d]\<rparr>"
  by (auto simp: makedirs_def emit_def Let_def split: option.splits fsnode.splits)

lemma process_image_try_stats:
  "process_image_try env url p w = Inr w' \<Longrightarrow> stats w' = stats w"
  "process_image_try env url p w = Inl (e, w') \<Longrightarrow> stats w' = stats w"
  by (auto simp: process_image_try_def emit_def Let_def split: sum.splits option.splits if_splits)

lemma process_image_stats: "stats (snd (process_image env url p w)) = stats w"
  by (auto simp: process_image_def emit_def process_image_try_stats split: sum.splits)

lemma process_image_try_trace:
  "process_image_try env url p w = Inr w' \<Longrightarrow> \<exists>evs. trace w' = trace w @ evs"
  "process_image_try env url p w = Inl (e, w') \<Longrightarrow> \<exists>evs. trace w' = trace w @ evs"
  by (auto simp: process_image_try_def emit_def Let_def split: sum.splits option.splits if_splits)

lemma process_image_trace: "\<exists>evs. trace (snd (process_image env url p w)) = trace w @ evs"
  using process_image_try_trace [of env url p w]
  by (auto simp: process_image_def emit_def split: sum.splits)

lemma push_back_stats:
  "upload_error env a p = Some pe \<Longrightarrow> stats (push_back env a p w) = stats w"
  "upload_error env a p = None \<Longrightarrow>
     stats (push_back env a p w) =
       (stats w)\<lparr>plex_posters_updated := plex_posters_updated (stats w) + 1\<rparr>"
  "errors (stats (push_back env a p w)) = errors (stats w)"
  by (auto simp: push_back_def emit_def Let_def split: option.splits)

lemma push_back_trace: "\<exists>evs. trace (push_back env a p w) = trace w @ evs"
  by (auto simp: push_back_def emit_def Let_def split: option.splits)

lemma artist_body_skip:
  assumes "image_path (title a) \<in> dom (fs w)" and "\<not> FORCE_REFRESH cfg"
  shows "artist_body env cfg a w =
     Inr (w\<lparr>stats := (stats w)\<lparr>already_exists_skipped :=
            already_exists_skipped (stats w) + 1\<rparr>\<rparr>)"
  using assms by (simp add: artist_body_def Let_def)

lemma artist_body_guids_error:
  assumes "\<not> (image_path (title a) \<in> dom (fs w) \<and> \<not> FORCE_REFRESH cfg)"
    and "guids a = Inl e"
  shows "artist_body env cfg a w = Inl (e, w)"
  using assms by (auto simp: artist_body_def Let_def)

lemma artist_body_unresolved:
  assumes "\<not> (image_path (title a) \<in> dom (fs w) \<and> \<not> FORCE_REFRESH cfg)"
    and "guids a = Inr gs" and "extract_mbid gs = Some mbid" and "mbid \<noteq> []"
    and "\<not> truthy (fst (fst (get_logo env cfg mbid (title a) w)))"
  shows "artist_body env cfg a w =
     Inr (emit (Log WARNING (lit ''Missing: '' @ title a @ lit '' -> ''
                  @ snd (fst (get_logo env cfg mbid (title a) w))))
            (add_not_found (title a) (snd (fst (get_logo env cfg mbid (title a) w)))
               (snd (get_logo env cfg mbid (title a) w))))"
  using assms by (auto simp: artist_body_def Let_def split: prod.splits)

text \<open>The rest of the body once the resolver has returned a usable URL.\<close>

lemma artist_body_resolved:
  assumes "\<not> (image_path (title a) \<in> dom (fs w) \<and> \<not> FORCE_REFRESH cfg)"
    and "guids a = Inr gs" and "extract_mbid gs = Some mbid" and "mbid \<noteq> []"
    and "truthy (fst (fst (get_logo env cfg mbid (title a) w)))"
  shows "artist_body env cfg a w =
     (case makedirs env (image_dir (title a)) (snd (get_logo env cfg mbid (title a) w)) of
        Inl x \<Rightarrow> Inl x
      | Inr w2 \<Rightarrow>
          (let r = process_image env (fst (fst (get_logo env cfg mbid (title a) w)))
                     (image_path (title a)) w2
           in if fst r then
                (let w4 = emit (Log INFO ([9989] @ lit '' Saved: '' @ title a @ lit '' (''
                            @ snd (fst (get_logo env cfg mbid (title a) w)) @ lit '')''))
                            (snd r);
                     w5 = w4\<lparr>stats := (stats w4)\<lparr>new_downloads :=
                            new_downloads (stats w4) + 1\<rparr>\<rparr>
                 in if UPDATE_PLEX cfg then Inr (push_back env a (image_path (title a)) w5)
                    else Inr w5)
              else Inr (snd r)))"
  using assms by (auto simp: artist_body_def Let_def split: prod.splits sum.splits)


lemma add_not_found_simps:
  "errors (stats (add_not_found n r w)) = errors (stats w)"
  "fs (add_not_found n r w) = fs w"
  "trace (add_not_found n r w) = trace w"
  by (simp_all add: add_not_found_def)

lemma emit_simps:
  "stats (emit ev w) = stats w" "fs (emit ev w) = fs w" "trace (emit ev w) = trace w @ [ev]"
  by (simp_all add: emit_def)

lemma artist_body_stats:
  "artist_body env cfg a w = Inr w' \<Longrightarrow> errors (stats w') = errors (stats w)"
  "artist_body env cfg a w = Inl (e, w') \<Longrightarrow> stats w' = stats w"
proof -
  let ?skip = "image_path (title a) \<in> dom (fs w) \<and> \<not> FORCE_REFRESH cfg"
  have "(artist_body env cfg a w = Inr w' \<longrightarrow> errors (stats w') = errors (stats w))
      \<and> (artist_body env cfg a w = Inl (e, w') \<longrightarrow> stats w' = stats w)"
  proof (cases ?skip)
    case True
    then show ?thesis by (auto simp: artist_body_skip)
  next
    case ns: False
    show ?thesis
    proof (cases "guids a")
      case (Inl x)
      then show ?thesis using ns by (auto simp: artist_body_guids_error)
    next
      case (Inr gs)
      show ?thesis
      proof (cases "extract_mbid gs = None \<or> extract_mbid gs = Some []")
        case True
        then show ?thesis
          using artist_body_no_mbid [OF ns Inr]
          by (auto simp: no_external_id_def Let_def emit_simps add_not_found_simps)
      next
        case False
        then obtain mbid where m: "extract_mbid gs = Some mbid" "mbid \<noteq> []" by auto
        let ?g = "get_logo env cfg mbid (title a) w"
        show ?thesis
        proof (cases "truthy (fst (fst ?g))")
          case False
          then show ?thesis
            using artist_body_unresolved [OF ns Inr m]
            by (auto simp: emit_simps add_not_found_simps get_logo_world)
        next
          case True
          have g: "stats (snd ?g) = stats w" by (simp add: get_logo_world)
          show ?thesis
          proof (cases "makedirs env (image_dir (title a)) (snd ?g)")
            case (Inl x)
            then show ?thesis
              using artist_body_resolved [OF ns Inr m True] g
              by (cases x) (auto dest: makedirs_Inl)
          next
            case (Inr w2)
            then have "stats w2 = stats w" using g by (auto dest: makedirs_Inr)
            then show ?thesis
              using artist_body_resolved [OF ns \<open>guids a = Inr gs\<close> m True] Inr
              by (auto simp: Let_def emit_simps process_image_stats push_back_stats
                  split: if_splits)
          qed
        qed
      qed
    qed
  qed
  then show "artist_body env cfg a w = Inr w' \<Longrightarrow> errors (stats w') = errors (stats w)"
    and "artist_body env cfg a w = Inl (e, w') \<Longrightarrow> stats w' = stats w"
    by blast+
qed

subsection \<open>Artists whose image is already there\<close>

text \<open>
  C5. When the image file of an artist exists and force-refresh is off, a turn of the
  loop changes the skip counter by one and nothing else: the other counters, the
  not-found list, the files and the sequence of calls (requests, downloads, writes) are
  as before. A second turn for the same artist does the same again.
\<close>

theorem skip_existing_image:
  assumes "image_path (title a) \<in> dom (fs w)" and "\<not> FORCE_REFRESH cfg"
  shows "process_artist env cfg a w =
           w\<lparr>stats := (stats w)\<lparr>already_exists_skipped :=
                already_exists_skipped (stats w) + 1\<rparr>\<rparr>
       \<and> process_artist env cfg a (process_artist env cfg a w) =
           w\<lparr>stats := (stats w)\<lparr>already_exists_skipped :=
                already_exists_skipped (stats w) + 2\<rparr>\<rparr>"
proof -
  let ?w1 = "w\<lparr>stats := (stats w)\<lparr>already_exists_skipped :=
                already_exists_skipped (stats w) + 1\<rparr>\<rparr>"
  have one: "process_artist env cfg a w = ?w1"
    using assms by (simp add: process_artist_def artist_body_skip)
  have "image_path (title a) \<in> dom (fs ?w1)" using assms by simp
  then have "process_artist env cfg a ?w1 =
      ?w1\<lparr>stats := (stats ?w1)\<lparr>already_exists_skipped :=
                already_exists_skipped (stats ?w1) + 1\<rparr>\<rparr>"
    using assms(2) by (simp add: process_artist_def artist_body_skip)
  then show ?thesis using one by simp
qed

theorem skip_existing_image_witness:
  "process_artist (sample_env (Inl (LibError []))) sample_cfg foo
     (world0\<lparr>fs := (fs world0)(lit ''/app/ArtistLogos/Foo/artist.jpg'' \<mapsto> OtherFile)\<rparr>)
   = world0\<lparr>fs := (fs world0)(lit ''/app/ArtistLogos/Foo/artist.jpg'' \<mapsto> OtherFile),
            stats := (stats world0)\<lparr>already_exists_skipped := 1\<rparr>\<rparr>"
proof -
  let ?w = "world0\<lparr>fs := (fs world0)(lit ''/app/ArtistLogos/Foo/artist.jpg'' \<mapsto> OtherFile)\<rparr>"
  have p: "image_path (title foo) = lit ''/app/ArtistLogos/Foo/artist.jpg''"
    by (simp add: foo_def image_path_def image_dir_def path_join_def
        BASE_OUTPUT_DIR_def sanitize_def strip_def illegal_chars_def is_space_def lit_def)
  have 1: "image_path (title foo) \<in> dom (fs ?w)"
    unfolding p by simp
  have 2: "\<not> FORCE_REFRESH sample_cfg"
    by (simp add: sample_cfg_def)
  show ?thesis
    using skip_existing_image [OF 1 2, of "sample_env (Inl (LibError []))"]
    by (simp add: world0_def)
qed

subsection \<open>Failures after the resolver, and the error counter\<close>

lemma main_loop_foldl:
  "main_loop env cfg artists w = foldl (\<lambda>w a. process_artist env cfg a w) w artists"
  by (induction artists arbitrary: w) simp_all

text \<open>
  C6. Take an artist for whom the resolver returned a URL and the directory was made.
  If \<open>process_image\<close> fails, the turn ends there: the statistics are those from before
  the turn, so the artist is not on the not-found list and \<open>errors\<close> is unchanged. If
  the image is saved and the upload to the library fails, the statistics differ from
  those before the turn by the download counter only. In every turn \<open>errors\<close> grows by
  one exactly when an exception leaves the loop body, and then the handler logs the line
  \<open>Critical error on\<close> with the artist's name and the loop goes on with the next artist:
  the run is the turns of all the artists of the list, one after the other in the order of
  the list, and after a turn that ended in the handler the turns of all the remaining
  artists are taken from the world the handler left.
\<close>

theorem failures_and_error_counter:
  "(\<not> (image_path (title a) \<in> dom (fs w) \<and> \<not> FORCE_REFRESH cfg)
      \<and> guids a = Inr gs \<and> extract_mbid gs = Some mbid \<and> mbid \<noteq> []
      \<and> truthy (fst (fst (get_logo env cfg mbid (title a) w)))
      \<and> makedirs env (image_dir (title a)) (snd (get_logo env cfg mbid (title a) w)) = Inr w2
    \<longrightarrow>
      (\<not> fst (process_image env (fst (fst (get_logo env cfg mbid (title a) w)))
                (image_path (title a)) w2) \<longrightarrow>
         process_artist env cfg a w =
           snd (process_image env (fst (fst (get_logo env cfg mbid (title a) w)))
                  (image_path (title a)) w2)
         \<and> stats (process_artist env cfg a w) = stats w)
      \<and> (fst (process_image env (fst (fst (get_logo env cfg mbid (title a) w)))
                (image_path (title a)) w2)
           \<and> UPDATE_PLEX cfg \<and> upload_error env a (image_path (title a)) = Some pe \<longrightarrow>
         stats (process_artist env cfg a w) =
           (stats w)\<lparr>new_downloads := new_downloads (stats w) + 1\<rparr>))
   \<and> errors (stats (process_artist env cfg a w)) =
       errors (stats w) + (case artist_body env cfg a w of Inl x \<Rightarrow> 1 | Inr w' \<Rightarrow> 0)
   \<and> (artist_body env cfg a w = Inl (e, w') \<longrightarrow>
         process_artist env cfg a w =
           w'\<lparr>stats := (stats w')\<lparr>errors := errors (stats w) + 1\<rparr>,
              trace := trace w' @ [Log ERROR (lit ''Critical error on '' @ title a @ lit '': ''
                                     @ str_exc env e)]\<rparr>)
   \<and> main_loop env cfg (a # rest) w = main_loop env cfg rest (process_artist env cfg a w)
   \<and> main_loop env cfg artists w = foldl (\<lambda>w a. process_artist env cfg a w) w artists
   \<and> main_loop env cfg [a, b] w = process_artist env cfg b (process_artist env cfg a w)
   \<and> (artist_body env cfg a w = Inl (e, w') \<longrightarrow>
         main_loop env cfg (a # rest) w =
           foldl (\<lambda>w a. process_artist env cfg a w)
             (w'\<lparr>stats := (stats w')\<lparr>errors := errors (stats w) + 1\<rparr>,
                 trace := trace w' @ [Log ERROR (lit ''Critical error on '' @ title a @ lit '': ''
                                        @ str_exc env e)]\<rparr>)
             rest)"
proof (intro conjI impI)
  let ?g = "get_logo env cfg mbid (title a) w"
  let ?r = "process_image env (fst (fst ?g)) (image_path (title a)) w2"
  assume h: "\<not> (image_path (title a) \<in> dom (fs w) \<and> \<not> FORCE_REFRESH cfg)
      \<and> guids a = Inr gs \<and> extract_mbid gs = Some mbid \<and> mbid \<noteq> []
      \<and> truthy (fst (fst ?g))
      \<and> makedirs env (image_dir (title a)) (snd ?g) = Inr w2"
  then have body: "artist_body env cfg a w =
      (if fst ?r then
         (let w4 = emit (Log INFO ([9989] @ lit '' Saved: '' @ title a @ lit '' (''
                     @ snd (fst ?g) @ lit '')'')) (snd ?r);
              w5 = w4\<lparr>stats := (stats w4)\<lparr>new_downloads := new_downloads (stats w4) + 1\<rparr>\<rparr>
          in if UPDATE_PLEX cfg then Inr (push_back env a (image_path (title a)) w5)
             else Inr w5)
       else Inr (snd ?r))"
    using artist_body_resolved [of a w cfg gs mbid env] by (simp add: Let_def)
  have w2: "stats w2 = stats w"
    using h makedirs_Inr [of env "image_dir (title a)" "snd ?g" w2]
    by (simp add: get_logo_world)
  {
    assume f: "\<not> fst ?r"
    then show "process_artist env cfg a w = snd ?r"
      using body by (simp add: process_artist_def)
    then show "stats (process_artist env cfg a w) = stats w"
      using w2 by (simp add: process_image_stats)
  }
  {
    assume "fst ?r \<and> UPDATE_PLEX cfg \<and> upload_error env a (image_path (title a)) = Some pe"
    then show "stats (process_artist env cfg a w) =
        (stats w)\<lparr>new_downloads := new_downloads (stats w) + 1\<rparr>"
      using body w2
      by (simp add: process_artist_def Let_def push_back_stats emit_simps process_image_stats)
  }
next
  show "errors (stats (process_artist env cfg a w)) =
       errors (stats w) + (case artist_body env cfg a w of Inl x \<Rightarrow> 1 | Inr w' \<Rightarrow> 0)"
  proof (cases "artist_body env cfg a w")
    case (Inl x)
    obtain e w' where x: "x = (e, w')" by (cases x)
    then have "stats w' = stats w" using Inl artist_body_stats(2) by blast
    then show ?thesis using Inl x by (simp add: process_artist_def emit_simps)
  next
    case (Inr w')
    then have "errors (stats w') = errors (stats w)" using artist_body_stats(1) by blast
    then show ?thesis using Inr by (simp add: process_artist_def)
  qed
next
  assume b: "artist_body env cfg a w = Inl (e, w')"
  then have "stats w' = stats w" using artist_body_stats(2) by blast
  then show "process_artist env cfg a w =
           w'\<lparr>stats := (stats w')\<lparr>errors := errors (stats w) + 1\<rparr>,
              trace := trace w' @ [Log ERROR (lit ''Critical error on '' @ title a @ lit '': ''
                                     @ str_exc env e)]\<rparr>"
    using b by (simp add: process_artist_def emit_def)
next
  show "main_loop env cfg (a # rest) w = main_loop env cfg rest (process_artist env cfg a w)"
    by simp
next
  show "main_loop env cfg artists w = foldl (\<lambda>w a. process_artist env cfg a w) w artists"
    by (rule main_loop_foldl)
next
  show "main_loop env cfg [a, b] w = process_artist env cfg b (process_artist env cfg a w)"
    by simp
next
  assume b: "artist_body env cfg a w = Inl (e, w')"
  then have "stats w' = stats w" using artist_body_stats(2) by blast
  then have "process_artist env cfg a w =
           w'\<lparr>stats := (stats w')\<lparr>errors := errors (stats w) + 1\<rparr>,
              trace := trace w' @ [Log ERROR (lit ''Critical error on '' @ title a @ lit '': ''
                                     @ str_exc env e)]\<rparr>"
    using b by (simp add: process_artist_def emit_def)
  then show "main_loop env cfg (a # rest) w =
           foldl (\<lambda>w a. process_artist env cfg a w)
             (w'\<lparr>stats := (stats w')\<lparr>errors := errors (stats w) + 1\<rparr>,
                 trace := trace w' @ [Log ERROR (lit ''Critical error on '' @ title a @ lit '': ''
                                        @ str_exc env e)]\<rparr>)
             rest"
    by (simp add: main_loop_foldl)
qed


theorem failures_and_error_counter_witness:
  "stats (process_artist
      ((sample_env (sample_reply 200 (sample_data [asset ''http://a/hd.png''] [])))
         \<lparr>image_open := (\<lambda>bytes. Inl (LibError (lit ''cannot identify image file'')))\<rparr>)
      sample_cfg foo world0) = stats world0
   \<and> stats (process_artist
      ((sample_env (sample_reply 200 (sample_data [asset ''http://a/hd.png''] [])))
         \<lparr>upload_error := (\<lambda>a p. Some (LibError (lit ''upload refused'')))\<rparr>)
      sample_cfg foo world0) = (stats world0)\<lparr>new_downloads := 1\<rparr>
   \<and> errors (stats (process_artist (sample_env (Inl (LibError [])))
        sample_cfg (foo\<lparr>guids := Inl (LibError (lit ''timed out''))\<rparr>) world0)) = 1
   \<and> stats (main_loop (sample_env (sample_reply 404 PyNone)) sample_cfg
        [foo\<lparr>guids := Inl (LibError (lit ''timed out''))\<rparr>, foo] world0)
      = (stats world0)\<lparr>errors := 1, not_found_list :=
           [lit ''Foo | Artist MBID not found in Fanart.tv database'']\<rparr>"
proof -
  let ?reply = "sample_reply 200 (sample_data [asset ''http://a/hd.png''] [])"
  let ?env1 = "(sample_env ?reply)
         \<lparr>image_open := (\<lambda>bytes. Inl (LibError (lit ''cannot identify image file'')))\<rparr>"
  let ?env2 = "(sample_env ?reply)
         \<lparr>upload_error := (\<lambda>a p. Some (LibError (lit ''upload refused'')))\<rparr>"
  let ?env3 = "sample_env (Inl (LibError []))"
  let ?bad = "foo\<lparr>guids := Inl (LibError (lit ''timed out''))\<rparr>"
  let ?gs = "[lit ''plex://artist/5d07'', lit ''mbid://1234'']"
  have ns: "\<not> (image_path (title foo) \<in> dom (fs world0) \<and> \<not> FORCE_REFRESH sample_cfg)"
    by (simp add: sample_defs model_defs)
  have gs: "guids foo = Inr ?gs"
    by (simp add: foo_def)
  have m: "extract_mbid ?gs = Some (lit ''1234'')" "lit ''1234'' \<noteq> []"
    by (simp_all add: sample_defs model_defs)
  have t1: "truthy (fst (fst (get_logo ?env1 sample_cfg (lit ''1234'') (title foo) world0)))"
    by (simp add: sample_defs model_defs)
  have t2: "truthy (fst (fst (get_logo ?env2 sample_cfg (lit ''1234'') (title foo) world0)))"
    by (simp add: sample_defs model_defs)
  define w1 where "w1 = projr (makedirs ?env1 (image_dir (title foo))
      (snd (get_logo ?env1 sample_cfg (lit ''1234'') (title foo) world0)))"
  define w2 where "w2 = projr (makedirs ?env2 (image_dir (title foo))
      (snd (get_logo ?env2 sample_cfg (lit ''1234'') (title foo) world0)))"
  have d1: "makedirs ?env1 (image_dir (title foo))
      (snd (get_logo ?env1 sample_cfg (lit ''1234'') (title foo) world0)) = Inr w1"
    unfolding w1_def by (simp add: sample_defs model_defs)
  have d2: "makedirs ?env2 (image_dir (title foo))
      (snd (get_logo ?env2 sample_cfg (lit ''1234'') (title foo) world0)) = Inr w2"
    unfolding w2_def by (simp add: sample_defs model_defs)
  have f1: "\<not> fst (process_image ?env1
      (fst (fst (get_logo ?env1 sample_cfg (lit ''1234'') (title foo) world0)))
      (image_path (title foo)) w1)"
    by (simp add: sample_defs model_defs)
  have f2: "fst (process_image ?env2
      (fst (fst (get_logo ?env2 sample_cfg (lit ''1234'') (title foo) world0)))
      (image_path (title foo)) w2)
      \<and> UPDATE_PLEX sample_cfg
      \<and> upload_error ?env2 foo (image_path (title foo)) = Some (LibError (lit ''upload refused''))"
    by (simp add: sample_defs model_defs)
  have b3: "artist_body ?env3 sample_cfg ?bad world0 = Inl (LibError (lit ''timed out''), world0)"
    by (rule artist_body_guids_error) (simp_all add: sample_defs model_defs)
  have "stats (process_artist ?env1 sample_cfg foo world0) = stats world0"
    using failures_and_error_counter [of foo world0 sample_cfg ?gs "lit ''1234''" ?env1 w1]
      ns gs m t1 d1 f1 by blast
  moreover have "stats (process_artist ?env2 sample_cfg foo world0) =
      (stats world0)\<lparr>new_downloads := new_downloads (stats world0) + 1\<rparr>"
    using failures_and_error_counter [of foo world0 sample_cfg ?gs "lit ''1234''" ?env2 w2
        "LibError (lit ''upload refused'')"]
      ns gs m t2 d2 f2 by blast
  moreover have "errors (stats (process_artist ?env3 sample_cfg ?bad world0)) =
      errors (stats world0) + 1"
    using failures_and_error_counter [of ?bad world0 sample_cfg _ _ ?env3] b3 by simp
  moreover have "stats (main_loop (sample_env (sample_reply 404 PyNone)) sample_cfg [?bad, foo]
        world0)
      = (stats world0)\<lparr>errors := 1, not_found_list :=
           [lit ''Foo | Artist MBID not found in Fanart.tv database'']\<rparr>"
  proof -
    let ?env4 = "sample_env (sample_reply 404 PyNone)"
    have "main_loop ?env4 sample_cfg [?bad, foo] world0 =
        process_artist ?env4 sample_cfg foo (process_artist ?env4 sample_cfg ?bad world0)"
      using failures_and_error_counter [where env = ?env4 and cfg = sample_cfg
          and a = ?bad and b = foo and w = world0] by blast
    then show ?thesis
      by (simp add: sample_defs model_defs process_artist_def artist_body_def
          add_not_found_def)
  qed
  ultimately show ?thesis
    by (simp add: world0_def)
qed

subsection \<open>When the output directory is made\<close>

text \<open>
  C10. A turn that ends in the skip branch, with an exception while the identifiers
  are read, without an external identifier, or with a resolver result that is not a usable
  URL leaves the files as they were and makes no \<open>makedirs\<close> and no save call. When the
  resolver did return a URL, \<open>makedirs\<close> for the artist's directory is the call that
  follows the resolver's pause and request.
\<close>

theorem directory_only_after_resolution:
  "((image_path (title a) \<in> dom (fs w) \<and> \<not> FORCE_REFRESH cfg)
     \<or> (\<exists>e. guids a = Inl e)
     \<or> (\<exists>gs. guids a = Inr gs
            \<and> (extract_mbid gs = None \<or> extract_mbid gs = Some []
                \<or> (\<exists>mbid. extract_mbid gs = Some mbid
                      \<and> \<not> truthy (fst (fst (get_logo env cfg mbid (title a) w))))))
    \<longrightarrow> fs (process_artist env cfg a w) = fs w
       \<and> (\<exists>evs. trace (process_artist env cfg a w) = trace w @ evs
              \<and> (\<forall>ev\<in>set evs. \<forall>p. ev \<noteq> MakeDirs p \<and> ev \<noteq> SaveJpeg p)))
   \<and> (\<not> (image_path (title a) \<in> dom (fs w) \<and> \<not> FORCE_REFRESH cfg)
       \<and> guids a = Inr gs' \<and> extract_mbid gs' = Some mbid' \<and> mbid' \<noteq> []
       \<and> truthy (fst (fst (get_logo env cfg mbid' (title a) w)))
    \<longrightarrow> (\<exists>evs. trace (process_artist env cfg a w) =
               trace w @ [Sleep, HttpGet (PyStr (fanart_url cfg mbid')),
                          MakeDirs (image_dir (title a))] @ evs))"
proof (intro conjI impI)
  let ?skip = "image_path (title a) \<in> dom (fs w) \<and> \<not> FORCE_REFRESH cfg"
  let ?quiet = "\<lambda>w'. fs w' = fs w
       \<and> (\<exists>evs. trace w' = trace w @ evs
              \<and> (\<forall>ev\<in>set evs. \<forall>p. ev \<noteq> MakeDirs p \<and> ev \<noteq> SaveJpeg p))"
  assume h: "?skip \<or> (\<exists>e. guids a = Inl e)
     \<or> (\<exists>gs. guids a = Inr gs
            \<and> (extract_mbid gs = None \<or> extract_mbid gs = Some []
                \<or> (\<exists>mbid. extract_mbid gs = Some mbid
                      \<and> \<not> truthy (fst (fst (get_logo env cfg mbid (title a) w))))))"
  have "?quiet (process_artist env cfg a w)"
  proof (cases ?skip)
    case True
    then show ?thesis by (simp add: process_artist_def artist_body_skip)
  next
    case ns: False
    show ?thesis
    proof (cases "guids a")
      case (Inl e)
      then show ?thesis
        using ns by (simp add: process_artist_def artist_body_guids_error emit_def)
    next
      case (Inr gs)
      show ?thesis
      proof (cases "extract_mbid gs = None \<or> extract_mbid gs = Some []")
        case True
        then show ?thesis
          using artist_body_no_mbid [OF ns Inr, of env]
          by (simp add: process_artist_def no_external_id_def add_not_found_def emit_def Let_def)
      next
        case False
        then obtain mbid where m: "extract_mbid gs = Some mbid" "mbid \<noteq> []"
          by auto
        then have "\<not> truthy (fst (fst (get_logo env cfg mbid (title a) w)))"
          using h ns Inr by auto
        then show ?thesis
          using artist_body_unresolved [OF ns Inr m]
          by (simp add: process_artist_def add_not_found_def emit_def get_logo_world)
      qed
    qed
  qed
  then show "fs (process_artist env cfg a w) = fs w"
    and "\<exists>evs. trace (process_artist env cfg a w) = trace w @ evs
              \<and> (\<forall>ev\<in>set evs. \<forall>p. ev \<noteq> MakeDirs p \<and> ev \<noteq> SaveJpeg p)"
    by blast+
next
  let ?g = "get_logo env cfg mbid' (title a) w"
  let ?d = "image_dir (title a)"
  let ?start = "trace w @ [Sleep, HttpGet (PyStr (fanart_url cfg mbid')), MakeDirs ?d]"
  assume h: "\<not> (image_path (title a) \<in> dom (fs w) \<and> \<not> FORCE_REFRESH cfg)
       \<and> guids a = Inr gs' \<and> extract_mbid gs' = Some mbid' \<and> mbid' \<noteq> []
       \<and> truthy (fst (fst ?g))"
  then have body: "artist_body env cfg a w =
     (case makedirs env ?d (snd ?g) of
        Inl x \<Rightarrow> Inl x
      | Inr w2 \<Rightarrow>
          (let r = process_image env (fst (fst ?g)) (image_path (title a)) w2
           in if fst r then
                (let w4 = emit (Log INFO ([9989] @ lit '' Saved: '' @ title a @ lit '' (''
                            @ snd (fst ?g) @ lit '')'')) (snd r);
                     w5 = w4\<lparr>stats := (stats w4)\<lparr>new_downloads :=
                            new_downloads (stats w4) + 1\<rparr>\<rparr>
                 in if UPDATE_PLEX cfg then Inr (push_back env a (image_path (title a)) w5)
                    else Inr w5)
              else Inr (snd r)))"
    using artist_body_resolved [of a w cfg gs' mbid' env] by blast
  have "\<exists>evs. trace (process_artist env cfg a w) = ?start @ evs"
  proof (cases "makedirs env ?d (snd ?g)")
    case (Inl x)
    obtain e w1 where x: "x = (e, w1)" by (cases x)
    then have "trace w1 = ?start"
      using Inl makedirs_Inl [of env ?d "snd ?g" e w1] by (simp add: get_logo_world)
    then show ?thesis
      using body Inl x by (simp add: process_artist_def emit_def)
  next
    case (Inr w2)
    let ?r = "process_image env (fst (fst ?g)) (image_path (title a)) w2"
    have w2: "trace w2 = ?start"
      using Inr makedirs_Inr [of env ?d "snd ?g" w2] by (simp add: get_logo_world)
    obtain evs where r: "trace (snd ?r) = ?start @ evs"
      using process_image_trace [of env "fst (fst ?g)" "image_path (title a)" w2] w2
      by auto
    show ?thesis
    proof (cases "fst ?r")
      case False
      then show ?thesis using body Inr r by (simp add: process_artist_def)
    next
      case True
      define w4 where "w4 = emit (Log INFO ([9989] @ lit '' Saved: '' @ title a @ lit '' (''
                            @ snd (fst ?g) @ lit '')'')) (snd ?r)"
      define w5 where "w5 = w4\<lparr>stats := (stats w4)\<lparr>new_downloads :=
                            new_downloads (stats w4) + 1\<rparr>\<rparr>"
      have pa: "process_artist env cfg a w =
          (if UPDATE_PLEX cfg then push_back env a (image_path (title a)) w5 else w5)"
        using body Inr True by (simp add: process_artist_def Let_def w5_def w4_def)
      obtain evs4 where w5: "trace w5 = ?start @ evs4"
        using r by (simp add: w5_def w4_def emit_def)
      obtain evs' where "trace (push_back env a (image_path (title a)) w5) = trace w5 @ evs'"
        using push_back_trace by blast
      then have "trace (push_back env a (image_path (title a)) w5) = ?start @ (evs4 @ evs')"
        using w5 by simp
      then show ?thesis
        using pa w5 by (cases "UPDATE_PLEX cfg") (simp_all only: if_True if_False, blast+)
    qed
  qed
  then show "\<exists>evs. trace (process_artist env cfg a w) =
      trace w @ [Sleep, HttpGet (PyStr (fanart_url cfg mbid')), MakeDirs ?d] @ evs"
    by simp
qed


theorem directory_only_after_resolution_witness:
  "fs (process_artist (sample_env (sample_reply 404 PyNone)) sample_cfg foo world0) = fs world0
   \<and> (\<exists>evs. trace (process_artist
          (sample_env (sample_reply 200 (sample_data [asset ''http://a/hd.png''] [])))
          sample_cfg foo world0)
        = [Sleep, HttpGet (PyStr (lit ''https://webservice.fanart.tv/v3/music/1234?api_key=key'')),
           MakeDirs (lit ''/app/ArtistLogos/Foo'')] @ evs)"
proof -
  let ?gs = "[lit ''plex://artist/5d07'', lit ''mbid://1234'']"
  let ?env1 = "sample_env (sample_reply 404 PyNone)"
  let ?env2 = "sample_env (sample_reply 200 (sample_data [asset ''http://a/hd.png''] []))"
  have ns: "\<not> (image_path (title foo) \<in> dom (fs world0) \<and> \<not> FORCE_REFRESH sample_cfg)"
    by (simp add: sample_defs model_defs)
  have gs: "guids foo = Inr ?gs"
    by (simp add: foo_def)
  have m: "extract_mbid ?gs = Some (lit ''1234'')" "lit ''1234'' \<noteq> []"
    by (simp_all add: sample_defs model_defs)
  have t1: "\<not> truthy (fst (fst (get_logo ?env1 sample_cfg (lit ''1234'') (title foo) world0)))"
    by (simp add: sample_defs model_defs)
  have t2: "truthy (fst (fst (get_logo ?env2 sample_cfg (lit ''1234'') (title foo) world0)))"
    by (simp add: sample_defs model_defs)
  have "fs (process_artist ?env1 sample_cfg foo world0) = fs world0"
    using directory_only_after_resolution [of foo world0 sample_cfg ?env1] gs m(1) t1
    by blast
  moreover have "\<exists>evs. trace (process_artist ?env2 sample_cfg foo world0) =
      trace world0 @ [Sleep, HttpGet (PyStr (fanart_url sample_cfg (lit ''1234''))),
                      MakeDirs (image_dir (title foo))] @ evs"
    using directory_only_after_resolution [of foo world0 sample_cfg ?env2 ?gs "lit ''1234''"]
      ns gs m t2 by blast
  moreover have "fanart_url sample_cfg (lit ''1234'') =
      lit ''https://webservice.fanart.tv/v3/music/1234?api_key=key''"
    by (simp add: sample_defs model_defs)
  moreover have "image_dir (title foo) = lit ''/app/ArtistLogos/Foo''"
    by (simp add: sample_defs model_defs)
  ultimately show ?thesis
    by (simp add: world0_def)
qed

subsection \<open>Names that share a folder\<close>

text \<open>
  C9. \<open>sanitize\<close> is not injective: \<open>A/B\<close> and \<open>AB\<close> are different names with the same
  folder name, and so are names that differ in surrounding whitespace. Two artists with the
  same sanitized name have the same directory and the same image path, and once the image
  of one of them exists, the other is skipped (force-refresh being off).
\<close>

theorem sanitize_collision:
  "lit ''A/B'' \<noteq> lit ''AB''
   \<and> sanitize (lit ''A/B'') = sanitize (lit ''AB'')
   \<and> sanitize (lit ''AB '') = sanitize (lit ''AB'')
   \<and> \<not> inj sanitize
   \<and> (sanitize (title a) = sanitize (title b) \<longrightarrow>
        image_dir (title a) = image_dir (title b) \<and> image_path (title a) = image_path (title b))
   \<and> (sanitize (title a) = sanitize (title b) \<and> image_path (title a) \<in> dom (fs w)
        \<and> \<not> FORCE_REFRESH cfg \<longrightarrow>
        process_artist env cfg b w =
          w\<lparr>stats := (stats w)\<lparr>already_exists_skipped :=
               already_exists_skipped (stats w) + 1\<rparr>\<rparr>)"
proof -
  have ne: "lit ''A/B'' \<noteq> lit ''AB''"
    by (simp add: lit_def)
  have eq: "sanitize (lit ''A/B'') = sanitize (lit ''AB'')"
    "sanitize (lit ''AB '') = sanitize (lit ''AB'')"
    by (simp_all add: sanitize_def lit_def strip_def illegal_chars_def is_space_def)
  have ninj: "\<not> inj sanitize"
    using ne eq(1) by (auto simp: inj_def)
  have paths: "sanitize (title a) = sanitize (title b) \<Longrightarrow>
      image_dir (title a) = image_dir (title b) \<and> image_path (title a) = image_path (title b)"
    by (simp add: image_path_def image_dir_def)
  have "process_artist env cfg b w =
          w\<lparr>stats := (stats w)\<lparr>already_exists_skipped :=
               already_exists_skipped (stats w) + 1\<rparr>\<rparr>"
    if "sanitize (title a) = sanitize (title b)" "image_path (title a) \<in> dom (fs w)"
      "\<not> FORCE_REFRESH cfg"
  proof -
    have "image_path (title b) \<in> dom (fs w)" using that paths by simp
    then show ?thesis using that(3) by (simp add: process_artist_def artist_body_skip)
  qed
  then show ?thesis using ne eq ninj paths by blast
qed

theorem sanitize_collision_witness:
  "already_exists_skipped (stats (process_artist
       ((sample_env (sample_reply 200 (sample_data [asset ''http://a/hd.png''] [])))
          \<lparr>token_sort_ratio := (\<lambda>a b. Inr 100)\<rparr>)
       sample_cfg (foo\<lparr>title := lit ''AB''\<rparr>)
       (process_artist
          ((sample_env (sample_reply 200 (sample_data [asset ''http://a/hd.png''] [])))
             \<lparr>token_sort_ratio := (\<lambda>a b. Inr 100)\<rparr>)
          sample_cfg (foo\<lparr>title := lit ''A/B''\<rparr>) world0))) = 1"
proof -
  let ?env = "(sample_env (sample_reply 200 (sample_data [asset ''http://a/hd.png''] [])))
          \<lparr>token_sort_ratio := (\<lambda>a b. Inr 100)\<rparr>"
  let ?a = "foo\<lparr>title := lit ''A/B''\<rparr>"
  let ?b = "foo\<lparr>title := lit ''AB''\<rparr>"
  let ?w = "process_artist ?env sample_cfg ?a world0"
  have 1: "sanitize (title ?a) = sanitize (title ?b)"
    by (simp add: sample_defs model_defs)
  have 2: "image_path (title ?a) \<in> dom (fs ?w)"
    by (simp add: sample_defs model_defs process_artist_def artist_body_def push_back_def)
  have 3: "\<not> FORCE_REFRESH sample_cfg"
    by (simp add: sample_cfg_def)
  have 4: "already_exists_skipped (stats ?w) = 0"
    by (simp add: sample_defs model_defs process_artist_def artist_body_def push_back_def)
  have "process_artist ?env sample_cfg ?b ?w =
      ?w\<lparr>stats := (stats ?w)\<lparr>already_exists_skipped := already_exists_skipped (stats ?w) + 1\<rparr>\<rparr>"
    using sanitize_collision [of ?a ?b ?w sample_cfg ?env] 1 2 3 by blast
  then show ?thesis using 4 by simp
qed

section \<open>The art resolver (properties)\<close>

lemma get_logo_fst:
  "fst (get_logo env cfg mbid plex_name w) =
     (case get_logo_try env cfg (fanart_url cfg mbid) plex_name of
        Inr r \<Rightarrow> r
      | Inl e \<Rightarrow> (PyNone, lit ''Connection Error: '' @ str_exc env e))"
  by (simp add: get_logo_def Let_def split: sum.split)

text \<open>The block of \<open>get_logo\<close> once the response is a 200 whose body is a dictionary.\<close>

lemma get_logo_try_scored:
  assumes "http_get env (PyStr url) = Inr res" and "status_code res = 200"
    and "json res = Inr (PyDict kvs)"
    and "token_sort_ratio env plex_name
           (case map_of kvs (lit ''name'') of None \<Rightarrow> PyStr (lit ''Unknown'') | Some v \<Rightarrow> v)
         = Inr score"
  shows "get_logo_try env cfg url plex_name =
     (if score < of_int (FUZZY_THRESHOLD cfg) then
        Inr (PyNone,
          lit ''Fuzzy Match Failed (Score: '' @ str_float env score
          @ lit '', Fanart Name: '' @ [39]
          @ format_val (str_val env)
              (case map_of kvs (lit ''name'') of None \<Rightarrow> PyStr (lit ''Unknown'') | Some v \<Rightarrow> v)
          @ [39] @ lit '')'')
      else select_asset env (PyDict kvs) score)"
  using assms by (simp add: get_logo_try_def and_then_def)

lemma select_asset_hd:
  assumes "map_of kvs (lit ''hdmusiclogo'') = Some (PyList (PyDict a # rest))"
    and "map_of a (lit ''url'') = Some u"
  shows "select_asset env (PyDict kvs) score =
     Inr (u, lit ''Success (HD) - Match: '' @ str_float env score @ lit ''%'')"
  using assms by (simp add: select_asset_def first_url_def and_then_def)

lemma select_asset_sd:
  assumes "map_of kvs (lit ''hdmusiclogo'') = None
           \<or> map_of kvs (lit ''hdmusiclogo'') = Some (PyList [])"
    and "map_of kvs (lit ''musiclogo'') = Some (PyList (PyDict a # rest))"
    and "map_of a (lit ''url'') = Some u"
  shows "select_asset env (PyDict kvs) score =
     Inr (u, lit ''Success (SD Fallback) - Match: '' @ str_float env score @ lit ''%'')"
  using assms by (auto simp: select_asset_def first_url_def and_then_def)

lemma select_asset_none:
  assumes "map_of kvs (lit ''hdmusiclogo'') = None
           \<or> map_of kvs (lit ''hdmusiclogo'') = Some (PyList [])"
    and "map_of kvs (lit ''musiclogo'') = None
           \<or> map_of kvs (lit ''musiclogo'') = Some (PyList [])"
  shows "select_asset env (PyDict kvs) score =
     Inr (PyNone, lit ''Artist exists on Fanart, but has no Logo assets (only backgrounds/art)'')"
  using assms by (auto simp: select_asset_def and_then_def)

text \<open>
  C1. Let the provider answer with status 200 and a dictionary, and let the similarity of
  the artist's name and the provider's name be \<open>score\<close>. If \<open>score\<close> is below the
  threshold, \<open>get_logo\<close> returns \<open>None\<close> whatever assets the answer lists, and the
  diagnostic spells out the score and the provider's name. If \<open>score\<close> equals the threshold
  the match is accepted: the result is the one of the asset choice, the URL of the first
  high-definition asset when there is one.
\<close>

theorem get_logo_rejects_below_threshold:
  assumes "http_get env (PyStr (fanart_url cfg mbid)) = Inr res"
    and "status_code res = 200"
    and "json res = Inr (PyDict kvs)"
    and "fanart_name =
           (case map_of kvs (lit ''name'') of None \<Rightarrow> PyStr (lit ''Unknown'') | Some v \<Rightarrow> v)"
    and "token_sort_ratio env plex_name fanart_name = Inr score"
  shows "(score < of_int (FUZZY_THRESHOLD cfg) \<longrightarrow>
            fst (get_logo env cfg mbid plex_name w) =
              (PyNone,
               lit ''Fuzzy Match Failed (Score: '' @ str_float env score
               @ lit '', Fanart Name: '' @ [39] @ format_val (str_val env) fanart_name
               @ [39] @ lit '')''))
       \<and> (score = of_int (FUZZY_THRESHOLD cfg) \<longrightarrow>
            fst (get_logo env cfg mbid plex_name w) =
              (case select_asset env (PyDict kvs) score of
                 Inr r \<Rightarrow> r
               | Inl e \<Rightarrow> (PyNone, lit ''Connection Error: '' @ str_exc env e)))
       \<and> (score = of_int (FUZZY_THRESHOLD cfg)
            \<and> map_of kvs (lit ''hdmusiclogo'') = Some (PyList (PyDict a # rest))
            \<and> map_of a (lit ''url'') = Some u \<longrightarrow>
            fst (get_logo env cfg mbid plex_name w) =
              (u, lit ''Success (HD) - Match: '' @ str_float env score @ lit ''%''))"
proof -
  have t: "get_logo_try env cfg (fanart_url cfg mbid) plex_name =
     (if score < of_int (FUZZY_THRESHOLD cfg) then
        Inr (PyNone,
          lit ''Fuzzy Match Failed (Score: '' @ str_float env score
          @ lit '', Fanart Name: '' @ [39] @ format_val (str_val env) fanart_name
          @ [39] @ lit '')'')
      else select_asset env (PyDict kvs) score)"
    using get_logo_try_scored [of env "fanart_url cfg mbid" res kvs plex_name score cfg] assms
    by simp
  show ?thesis
    unfolding get_logo_fst t by (auto simp: select_asset_hd)
qed

theorem get_logo_rejects_below_threshold_witness:
  "fst (get_logo
      ((sample_env (sample_reply 200
          (sample_data [asset ''http://a/hd.png''] [asset ''http://a/sd.png''])))
         \<lparr>token_sort_ratio := (\<lambda>a b. Inr 89)\<rparr>)
      sample_cfg (lit ''1234'') (lit ''Foo Fighters'') world0)
   = (PyNone, lit ''Fuzzy Match Failed (Score: 89, Fanart Name: '' @ [39] @ lit ''Foo'' @ [39]
              @ lit '')'')
   \<and> fst (get_logo
      ((sample_env (sample_reply 200
          (sample_data [asset ''http://a/hd.png''] [asset ''http://a/sd.png''])))
         \<lparr>token_sort_ratio := (\<lambda>a b. Inr 90)\<rparr>)
      sample_cfg (lit ''1234'') (lit ''Foo Fighters'') world0)
   = (PyStr (lit ''http://a/hd.png''), lit ''Success (HD) - Match: 90%'')"
proof -
  let ?data = "sample_data [asset ''http://a/hd.png''] [asset ''http://a/sd.png'']"
  let ?kvs = "[(lit ''name'', PyStr (lit ''Foo'')),
               (lit ''hdmusiclogo'', PyList [asset ''http://a/hd.png'']),
               (lit ''musiclogo'', PyList [asset ''http://a/sd.png''])]"
  let ?res = "\<lparr>status_code = 200, json = Inr ?data, content = []\<rparr>"
  let ?env = "\<lambda>s. (sample_env (sample_reply 200 ?data))\<lparr>token_sort_ratio := (\<lambda>a b. Inr s)\<rparr>"
  let ?a = "[(lit ''id'', PyStr (lit ''1'')), (lit ''url'', PyStr (lit ''http://a/hd.png''))]"
  have h: "http_get (?env s) (PyStr (fanart_url sample_cfg (lit ''1234''))) = Inr ?res"
    "status_code ?res = 200" "json ?res = Inr (PyDict ?kvs)"
    "PyStr (lit ''Foo'') =
       (case map_of ?kvs (lit ''name'') of None \<Rightarrow> PyStr (lit ''Unknown'') | Some v \<Rightarrow> v)"
    "token_sort_ratio (?env s) (lit ''Foo Fighters'') (PyStr (lit ''Foo'')) = Inr s" for s
    by (simp_all add: sample_defs model_defs)
  have low: "(89::rat) < of_int (FUZZY_THRESHOLD sample_cfg)"
    and eq: "(90::rat) = of_int (FUZZY_THRESHOLD sample_cfg)
       \<and> map_of ?kvs (lit ''hdmusiclogo'') = Some (PyList (PyDict ?a # []))
       \<and> map_of ?a (lit ''url'') = Some (PyStr (lit ''http://a/hd.png''))"
    by (simp_all add: sample_defs)
  have "fst (get_logo (?env 89) sample_cfg (lit ''1234'') (lit ''Foo Fighters'') world0) =
      (PyNone,
       lit ''Fuzzy Match Failed (Score: '' @ str_float (?env 89) 89
       @ lit '', Fanart Name: '' @ [39] @ format_val (str_val (?env 89)) (PyStr (lit ''Foo''))
       @ [39] @ lit '')'')"
    using get_logo_rejects_below_threshold
        [where env = "?env 89" and cfg = sample_cfg and mbid = "lit ''1234''" and res = ?res
           and kvs = ?kvs and fanart_name = "PyStr (lit ''Foo'')"
           and plex_name = "lit ''Foo Fighters''" and score = 89 and w = world0]
      h low by blast
  moreover have "fst (get_logo (?env 90) sample_cfg (lit ''1234'') (lit ''Foo Fighters'') world0) =
      (PyStr (lit ''http://a/hd.png''),
       lit ''Success (HD) - Match: '' @ str_float (?env 90) 90 @ lit ''%'')"
    using get_logo_rejects_below_threshold
        [where env = "?env 90" and cfg = sample_cfg and mbid = "lit ''1234''" and res = ?res
           and kvs = ?kvs and fanart_name = "PyStr (lit ''Foo'')"
           and plex_name = "lit ''Foo Fighters''" and score = 90 and w = world0
           and a = ?a and rest = "[]" and u = "PyStr (lit ''http://a/hd.png'')"]
      h eq by blast
  moreover have "lit ''Fuzzy Match Failed (Score: '' @ str_float (?env 89) 89
       @ lit '', Fanart Name: '' @ [39] @ format_val (str_val (?env 89)) (PyStr (lit ''Foo''))
       @ [39] @ lit '')''
     = lit ''Fuzzy Match Failed (Score: 89, Fanart Name: '' @ [39] @ lit ''Foo'' @ [39]
       @ lit '')''"
    by (simp add: sample_defs str_int_def str_nat.simps)
  moreover have "lit ''Success (HD) - Match: '' @ str_float (?env 90) 90 @ lit ''%''
     = lit ''Success (HD) - Match: 90%''"
    by (simp add: sample_defs str_int_def str_nat.simps)
  ultimately show ?thesis
    by (simp only:)
qed

text \<open>
  C2. For an accepted match: when the high-definition list starts with an asset that has a
  URL, that URL is returned, whatever the standard-definition list holds; when the
  high-definition list is missing or empty and the standard-definition list starts with an
  asset that has a URL, that URL is returned and the diagnostic says \<open>SD Fallback\<close>; when
  both lists are missing or empty, the result is \<open>None\<close> with the diagnostic that the
  artist has no logo assets.
\<close>

theorem get_logo_asset_priority:
  assumes "http_get env (PyStr (fanart_url cfg mbid)) = Inr res"
    and "status_code res = 200"
    and "json res = Inr (PyDict kvs)"
    and "token_sort_ratio env plex_name
           (case map_of kvs (lit ''name'') of None \<Rightarrow> PyStr (lit ''Unknown'') | Some v \<Rightarrow> v)
         = Inr score"
    and "\<not> score < of_int (FUZZY_THRESHOLD cfg)"
  shows "(map_of kvs (lit ''hdmusiclogo'') = Some (PyList (PyDict a # rest))
          \<and> map_of a (lit ''url'') = Some u \<longrightarrow>
            fst (get_logo env cfg mbid plex_name w) =
              (u, lit ''Success (HD) - Match: '' @ str_float env score @ lit ''%''))
       \<and> ((map_of kvs (lit ''hdmusiclogo'') = None
             \<or> map_of kvs (lit ''hdmusiclogo'') = Some (PyList []))
          \<and> map_of kvs (lit ''musiclogo'') = Some (PyList (PyDict a # rest))
          \<and> map_of a (lit ''url'') = Some u \<longrightarrow>
            fst (get_logo env cfg mbid plex_name w) =
              (u, lit ''Success (SD Fallback) - Match: '' @ str_float env score @ lit ''%''))
       \<and> ((map_of kvs (lit ''hdmusiclogo'') = None
             \<or> map_of kvs (lit ''hdmusiclogo'') = Some (PyList []))
          \<and> (map_of kvs (lit ''musiclogo'') = None
             \<or> map_of kvs (lit ''musiclogo'') = Some (PyList [])) \<longrightarrow>
            fst (get_logo env cfg mbid plex_name w) =
              (PyNone,
               lit ''Artist exists on Fanart, but has no Logo assets (only backgrounds/art)''))"
proof -
  have t: "get_logo_try env cfg (fanart_url cfg mbid) plex_name =
      select_asset env (PyDict kvs) score"
    using get_logo_try_scored [of env "fanart_url cfg mbid" res kvs plex_name score cfg] assms
    by simp
  show ?thesis
    unfolding get_logo_fst t
    by (intro conjI impI) (simp_all add: select_asset_hd select_asset_sd select_asset_none)
qed

theorem get_logo_asset_priority_witness:
  "fst (get_logo
      (sample_env (sample_reply 200
          (sample_data [asset ''http://a/hd.png'', asset ''http://a/hd2.png'']
             [asset ''http://a/sd.png''])))
      sample_cfg (lit ''1234'') (lit ''Foo'') world0)
   = (PyStr (lit ''http://a/hd.png''), lit ''Success (HD) - Match: 100%'')
   \<and> fst (get_logo
      (sample_env (sample_reply 200 (sample_data [] [asset ''http://a/sd.png''])))
      sample_cfg (lit ''1234'') (lit ''Foo'') world0)
   = (PyStr (lit ''http://a/sd.png''), lit ''Success (SD Fallback) - Match: 100%'')
   \<and> fst (get_logo (sample_env (sample_reply 200 (sample_data [] [])))
      sample_cfg (lit ''1234'') (lit ''Foo'') world0)
   = (PyNone, lit ''Artist exists on Fanart, but has no Logo assets (only backgrounds/art)'')"
proof -
  let ?kvs = "\<lambda>hds sds. [(lit ''name'', PyStr (lit ''Foo'')), (lit ''hdmusiclogo'', PyList hds),
               (lit ''musiclogo'', PyList sds)]"
  let ?res = "\<lambda>hds sds. \<lparr>status_code = 200, json = Inr (PyDict (?kvs hds sds)), content = []\<rparr>"
  let ?env = "\<lambda>hds sds. sample_env (sample_reply 200 (sample_data hds sds))"
  let ?a = "\<lambda>u. [(lit ''id'', PyStr (lit ''1'')), (lit ''url'', PyStr (lit u))]"
  let ?hd = "[asset ''http://a/hd.png'', asset ''http://a/hd2.png'']"
  let ?sd = "[asset ''http://a/sd.png'']"
  have h: "http_get (?env hds sds) (PyStr (fanart_url sample_cfg (lit ''1234'')))
             = Inr (?res hds sds)"
    "token_sort_ratio (?env hds sds) (lit ''Foo'')
       (case map_of (?kvs hds sds) (lit ''name'') of
          None \<Rightarrow> PyStr (lit ''Unknown'') | Some v \<Rightarrow> v) = Inr 100" for hds sds
    by (simp_all add: sample_defs model_defs)
  have g: "status_code (?res hds sds) = 200" "json (?res hds sds) = Inr (PyDict (?kvs hds sds))"
    "\<not> (100::rat) < of_int (FUZZY_THRESHOLD sample_cfg)" for hds sds
    by (simp_all add: sample_defs)
  have k1: "map_of (?kvs ?hd ?sd) (lit ''hdmusiclogo'')
              = Some (PyList (PyDict (?a ''http://a/hd.png'') # [asset ''http://a/hd2.png'']))
            \<and> map_of (?a ''http://a/hd.png'') (lit ''url'') = Some (PyStr (lit ''http://a/hd.png''))"
    by (simp add: sample_defs)
  have k2: "(map_of (?kvs [] ?sd) (lit ''hdmusiclogo'') = None
              \<or> map_of (?kvs [] ?sd) (lit ''hdmusiclogo'') = Some (PyList []))
            \<and> map_of (?kvs [] ?sd) (lit ''musiclogo'')
              = Some (PyList (PyDict (?a ''http://a/sd.png'') # []))
            \<and> map_of (?a ''http://a/sd.png'') (lit ''url'') = Some (PyStr (lit ''http://a/sd.png''))"
    by (simp add: sample_defs)
  have k3: "(map_of (?kvs [] []) (lit ''hdmusiclogo'') = None
              \<or> map_of (?kvs [] []) (lit ''hdmusiclogo'') = Some (PyList []))
            \<and> (map_of (?kvs [] []) (lit ''musiclogo'') = None
              \<or> map_of (?kvs [] []) (lit ''musiclogo'') = Some (PyList []))"
    by (simp add: sample_defs)
  have s: "str_float (?env hds sds) 100 = lit ''100''" for hds sds
    by (simp add: sample_defs str_int_def str_nat.simps)
  have "fst (get_logo (?env ?hd ?sd) sample_cfg (lit ''1234'') (lit ''Foo'') world0) =
      (PyStr (lit ''http://a/hd.png''),
       lit ''Success (HD) - Match: '' @ str_float (?env ?hd ?sd) 100 @ lit ''%'')"
    using get_logo_asset_priority
        [where env = "?env ?hd ?sd" and cfg = sample_cfg and mbid = "lit ''1234''"
           and res = "?res ?hd ?sd" and kvs = "?kvs ?hd ?sd" and plex_name = "lit ''Foo''"
           and score = 100 and w = world0 and a = "?a ''http://a/hd.png''"
           and rest = "[asset ''http://a/hd2.png'']" and u = "PyStr (lit ''http://a/hd.png'')"]
      h g k1 by blast
  moreover have "fst (get_logo (?env [] ?sd) sample_cfg (lit ''1234'') (lit ''Foo'') world0) =
      (PyStr (lit ''http://a/sd.png''),
       lit ''Success (SD Fallback) - Match: '' @ str_float (?env [] ?sd) 100 @ lit ''%'')"
    using get_logo_asset_priority
        [where env = "?env [] ?sd" and cfg = sample_cfg and mbid = "lit ''1234''"
           and res = "?res [] ?sd" and kvs = "?kvs [] ?sd" and plex_name = "lit ''Foo''"
           and score = 100 and w = world0 and a = "?a ''http://a/sd.png''"
           and rest = "[]" and u = "PyStr (lit ''http://a/sd.png'')"]
      h g k2 by blast
  moreover have "fst (get_logo (?env [] []) sample_cfg (lit ''1234'') (lit ''Foo'') world0) =
      (PyNone, lit ''Artist exists on Fanart, but has no Logo assets (only backgrounds/art)'')"
    using get_logo_asset_priority
        [where env = "?env [] []" and cfg = sample_cfg and mbid = "lit ''1234''"
           and res = "?res [] []" and kvs = "?kvs [] []" and plex_name = "lit ''Foo''"
           and score = 100 and w = world0]
      h g k3 by blast
  moreover have "lit ''Success (HD) - Match: '' @ lit ''100'' @ lit ''%''
      = lit ''Success (HD) - Match: 100%''"
    "lit ''Success (SD Fallback) - Match: '' @ lit ''100'' @ lit ''%''
      = lit ''Success (SD Fallback) - Match: 100%''"
    by (simp_all add: lit_def)
  ultimately show ?thesis
    by (simp only: s)
qed

text \<open>
  C8. \<open>get_logo\<close> always returns a pair: the result of its block, or \<open>None\<close> with
  \<open>Connection Error\<close> and the text of the exception when the block raised; it pauses once
  and sends one request. A transport failure gives \<open>None\<close> and the error text, status
  404 gives \<open>None\<close> and the not-found diagnostic, any status other than 200 and 404 gives
  \<open>None\<close> and a diagnostic with that status, and a body that cannot be decoded gives
  \<open>None\<close> and the error text. An artist for whom \<open>get_logo\<close> returned \<open>None\<close> is
  appended to the not-found list with that diagnostic and no counter changes.
\<close>

theorem get_logo_never_raises:
  "fst (get_logo env cfg mbid plex_name w) =
     (case get_logo_try env cfg (fanart_url cfg mbid) plex_name of
        Inr r \<Rightarrow> r
      | Inl e \<Rightarrow> (PyNone, lit ''Connection Error: '' @ str_exc env e))
   \<and> snd (get_logo env cfg mbid plex_name w) =
       w\<lparr>trace := trace w @ [Sleep, HttpGet (PyStr (fanart_url cfg mbid))]\<rparr>
   \<and> (http_get env (PyStr (fanart_url cfg mbid)) = Inl e \<longrightarrow>
        fst (get_logo env cfg mbid plex_name w) =
          (PyNone, lit ''Connection Error: '' @ str_exc env e))
   \<and> (http_get env (PyStr (fanart_url cfg mbid)) = Inr res \<and> status_code res = 404 \<longrightarrow>
        fst (get_logo env cfg mbid plex_name w) =
          (PyNone, lit ''Artist MBID not found in Fanart.tv database''))
   \<and> (http_get env (PyStr (fanart_url cfg mbid)) = Inr res \<and> status_code res \<noteq> 404
        \<and> status_code res \<noteq> 200 \<longrightarrow>
        fst (get_logo env cfg mbid plex_name w) =
          (PyNone, lit ''API Error (Status: '' @ str_int (status_code res) @ lit '')''))
   \<and> (http_get env (PyStr (fanart_url cfg mbid)) = Inr res \<and> status_code res = 200
        \<and> json res = Inl e \<longrightarrow>
        fst (get_logo env cfg mbid plex_name w) =
          (PyNone, lit ''Connection Error: '' @ str_exc env e))
   \<and> (\<not> (image_path (title a) \<in> dom (fs w) \<and> \<not> FORCE_REFRESH cfg)
        \<and> guids a = Inr gs \<and> extract_mbid gs = Some mbid \<and> mbid \<noteq> []
        \<and> fst (get_logo env cfg mbid (title a) w) = (PyNone, msg) \<longrightarrow>
        stats (process_artist env cfg a w) =
          (stats w)\<lparr>not_found_list := not_found_list (stats w) @ [title a @ lit '' | '' @ msg]\<rparr>)"
proof (intro conjI impI)
  show "fst (get_logo env cfg mbid plex_name w) =
     (case get_logo_try env cfg (fanart_url cfg mbid) plex_name of
        Inr r \<Rightarrow> r
      | Inl e \<Rightarrow> (PyNone, lit ''Connection Error: '' @ str_exc env e))"
    by (rule get_logo_fst)
  show "snd (get_logo env cfg mbid plex_name w) =
       w\<lparr>trace := trace w @ [Sleep, HttpGet (PyStr (fanart_url cfg mbid))]\<rparr>"
    by (rule get_logo_world)
  show "fst (get_logo env cfg mbid plex_name w) =
          (PyNone, lit ''Connection Error: '' @ str_exc env e)"
    if "http_get env (PyStr (fanart_url cfg mbid)) = Inl e"
    using that by (simp add: get_logo_fst get_logo_try_def and_then_def)
  show "fst (get_logo env cfg mbid plex_name w) =
          (PyNone, lit ''Artist MBID not found in Fanart.tv database'')"
    if "http_get env (PyStr (fanart_url cfg mbid)) = Inr res \<and> status_code res = 404"
    using that by (simp add: get_logo_fst get_logo_try_def and_then_def)
  show "fst (get_logo env cfg mbid plex_name w) =
          (PyNone, lit ''API Error (Status: '' @ str_int (status_code res) @ lit '')'')"
    if "http_get env (PyStr (fanart_url cfg mbid)) = Inr res \<and> status_code res \<noteq> 404
        \<and> status_code res \<noteq> 200"
    using that by (simp add: get_logo_fst get_logo_try_def and_then_def)
  show "fst (get_logo env cfg mbid plex_name w) =
          (PyNone, lit ''Connection Error: '' @ str_exc env e)"
    if "http_get env (PyStr (fanart_url cfg mbid)) = Inr res \<and> status_code res = 200
        \<and> json res = Inl e"
    using that by (simp add: get_logo_fst get_logo_try_def and_then_def)
  show "stats (process_artist env cfg a w) =
          (stats w)\<lparr>not_found_list := not_found_list (stats w) @ [title a @ lit '' | '' @ msg]\<rparr>"
    if h: "\<not> (image_path (title a) \<in> dom (fs w) \<and> \<not> FORCE_REFRESH cfg)
        \<and> guids a = Inr gs \<and> extract_mbid gs = Some mbid \<and> mbid \<noteq> []
        \<and> fst (get_logo env cfg mbid (title a) w) = (PyNone, msg)"
  proof -
    have "\<not> truthy (fst (fst (get_logo env cfg mbid (title a) w)))"
      using h by simp
    then show ?thesis
      using h artist_body_unresolved [of a w cfg gs mbid env]
      by (simp add: process_artist_def add_not_found_def emit_def get_logo_world)
  qed
qed

theorem get_logo_never_raises_witness:
  "fst (get_logo (sample_env (Inl (LibError (lit ''Read timed out''))))
          sample_cfg (lit ''1234'') (lit ''Foo'') world0)
     = (PyNone, lit ''Connection Error: Read timed out'')
   \<and> fst (get_logo (sample_env (sample_reply 404 PyNone))
          sample_cfg (lit ''1234'') (lit ''Foo'') world0)
     = (PyNone, lit ''Artist MBID not found in Fanart.tv database'')
   \<and> fst (get_logo (sample_env (sample_reply 503 PyNone))
          sample_cfg (lit ''1234'') (lit ''Foo'') world0)
     = (PyNone, lit ''API Error (Status: 503)'')
   \<and> stats (process_artist (sample_env (sample_reply 404 PyNone)) sample_cfg foo world0)
     = (stats world0)\<lparr>not_found_list :=
          [lit ''Foo | Artist MBID not found in Fanart.tv database'']\<rparr>"
proof -
  let ?url = "PyStr (fanart_url sample_cfg (lit ''1234''))"
  let ?gs = "[lit ''plex://artist/5d07'', lit ''mbid://1234'']"
  let ?e = "LibError (lit ''Read timed out'')"
  let ?res = "\<lambda>st. \<lparr>status_code = st, json = Inr PyNone, content = []\<rparr>"
  have h1: "http_get (sample_env (Inl ?e)) ?url = Inl ?e"
    by (simp add: sample_defs model_defs)
  have h2: "http_get (sample_env (sample_reply st PyNone)) ?url = Inr (?res st)" for st
    by (simp add: sample_defs model_defs)
  have s: "status_code (?res 404) = 404"
    "status_code (?res 503) \<noteq> 404 \<and> status_code (?res 503) \<noteq> 200"
    by simp_all
  have ns: "\<not> (image_path (title foo) \<in> dom (fs world0) \<and> \<not> FORCE_REFRESH sample_cfg)"
    by (simp add: sample_defs model_defs)
  have gs: "guids foo = Inr ?gs" "title foo = lit ''Foo''"
    by (simp_all add: foo_def)
  have m: "extract_mbid ?gs = Some (lit ''1234'')" "lit ''1234'' \<noteq> []"
    by (simp_all add: sample_defs model_defs)
  have a: "fst (get_logo (sample_env (Inl ?e)) sample_cfg (lit ''1234'') (lit ''Foo'') world0)
      = (PyNone, lit ''Connection Error: '' @ str_exc (sample_env (Inl ?e)) ?e)"
    using get_logo_never_raises
        [where env = "sample_env (Inl ?e)" and cfg = sample_cfg and mbid = "lit ''1234''"
           and plex_name = "lit ''Foo''" and w = world0 and e = ?e]
      h1 by blast
  have b: "fst (get_logo (sample_env (sample_reply 404 PyNone)) sample_cfg (lit ''1234'')
             (lit ''Foo'') world0)
      = (PyNone, lit ''Artist MBID not found in Fanart.tv database'')"
    using get_logo_never_raises
        [where env = "sample_env (sample_reply 404 PyNone)" and cfg = sample_cfg
           and mbid = "lit ''1234''" and plex_name = "lit ''Foo''" and w = world0
           and res = "?res 404"]
      h2 [of 404] s(1) by blast
  have c: "fst (get_logo (sample_env (sample_reply 503 PyNone)) sample_cfg (lit ''1234'')
             (lit ''Foo'') world0)
      = (PyNone, lit ''API Error (Status: '' @ str_int (status_code (?res 503)) @ lit '')'')"
    using get_logo_never_raises
        [where env = "sample_env (sample_reply 503 PyNone)" and cfg = sample_cfg
           and mbid = "lit ''1234''" and plex_name = "lit ''Foo''" and w = world0
           and res = "?res 503"]
      h2 [of 503] s(2) by blast
  have d: "stats (process_artist (sample_env (sample_reply 404 PyNone)) sample_cfg foo world0)
      = (stats world0)\<lparr>not_found_list := not_found_list (stats world0)
           @ [title foo @ lit '' | '' @ lit ''Artist MBID not found in Fanart.tv database'']\<rparr>"
    using get_logo_never_raises
        [where env = "sample_env (sample_reply 404 PyNone)" and cfg = sample_cfg
           and mbid = "lit ''1234''" and w = world0 and a = foo and gs = ?gs
           and msg = "lit ''Artist MBID not found in Fanart.tv database''"]
      ns gs m b by simp
  have t: "lit ''Connection Error: '' @ str_exc (sample_env (Inl ?e)) ?e
             = lit ''Connection Error: Read timed out''"
    "lit ''API Error (Status: '' @ str_int (status_code (?res 503)) @ lit '')''
             = lit ''API Error (Status: 503)''"
    "not_found_list (stats world0)
           @ [title foo @ lit '' | '' @ lit ''Artist MBID not found in Fanart.tv database'']
       = [lit ''Foo | Artist MBID not found in Fanart.tv database'']"
    by (simp_all add: sample_defs str_int_def str_nat.simps)
  show ?thesis
    using a b c d by (simp only: t)
qed

section \<open>The image normalizer (properties)\<close>






end
